theory Spec2Isabelle
  imports Main "HOL-Library.Sublist" "HOL-Library.AList"
begin

section \<open>Shared data types (types.ts)\<close>

text \<open>
  JavaScript strings are sequences of UTF-16 code units. They are modelled as
  \<^typ>\<open>string\<close>, one \<^typ>\<open>char\<close> per code unit, which covers the code
  units below 256. The \<open>type\<close> field of a token holds one of the strings of
  \<open>TOKEN_TYPES\<close>; it is modelled as an enumeration.
\<close>

datatype token_type =
  KEYWORD | IDENTIFIER | NUMBER | STRING | OPERATOR | PUNCTUATION | COMMENT | WHITESPACE

record Token =
  tok_type :: token_type
  tok_value :: string
  tok_line :: nat
  tok_column :: nat

record CompilerError =
  err_message :: string
  err_line :: nat
  err_column :: nat

record IRInstruction =
  op :: string
  result :: "string option"
  arg1 :: "string option"
  arg2 :: "string option"

text \<open>
  An AST node: \<open>value\<close>, \<open>line\<close>, \<open>column\<close> and \<open>children\<close> are
  optional fields, \<open>None\<close> where the field is \<open>undefined\<close>.
\<close>

datatype ASTNode =
  ASTNode (node_type: string) (node_value: "string option") (node_line: "nat option")
    (node_column: "nat option") (children: "ASTNode list option")

subsection \<open>JavaScript idioms\<close>

text \<open>
  \<open>x || d\<close> on an optional string: \<open>undefined\<close>, \<open>null\<close> and the empty
  string are falsy. \<open>truthy\<close> is the test \<open>if (x)\<close> on such a value.
\<close>

definition truthy :: "string option \<Rightarrow> bool" where
  "truthy x = (case x of None \<Rightarrow> False | Some s \<Rightarrow> s \<noteq> [])"

definition or_else :: "string option \<Rightarrow> string \<Rightarrow> string" where
  "or_else x d = (case x of None \<Rightarrow> d | Some s \<Rightarrow> if s = [] then d else s)"

text \<open>\<open>n || 0\<close> on an optional number.\<close>

definition or_zero :: "nat option \<Rightarrow> nat" where
  "or_zero x = (case x of None \<Rightarrow> 0 | Some n \<Rightarrow> n)"

text \<open>The decimal digits of a natural number, as template literals print it.\<close>

function show_nat :: "nat \<Rightarrow> string" where
  "show_nat n =
     (if n < 10 then [''0123456789'' ! n]
      else show_nat (n div 10) @ [''0123456789'' ! (n mod 10)])"
  by pat_completeness auto
termination
  by (relation "measure id") auto

declare show_nat.simps [simp del]

text \<open>
  \<open>node.children![i]\<close>, for the uses that read a property of the child or visit
  it at once: \<open>None\<close> when \<open>children\<close> is \<open>undefined\<close> or has no element
  \<open>i\<close>, where the source throws a \<open>TypeError\<close>. \<open>child_count\<close> is
  \<open>node.children!.length\<close>, \<open>None\<close> where \<open>children\<close> is
  \<open>undefined\<close>; the models read \<open>the (child_count node)\<close> only after
  they found a child of the node.
\<close>

definition child :: "ASTNode \<Rightarrow> nat \<Rightarrow> ASTNode option" where
  "child node i =
     (case children node of
        None \<Rightarrow> None
      | Some cs \<Rightarrow> if i < length cs then Some (cs ! i) else None)"

definition child_count :: "ASTNode \<Rightarrow> nat option" where
  "child_count node = map_option length (children node)"

text \<open>
  A loop over a list of nodes that threads a state and stops where a step throws
  (\<open>forEach\<close> and the \<open>for\<close> loops over \<open>children\<close>).
\<close>

fun for_each :: "('a \<Rightarrow> 's \<Rightarrow> 's option) \<Rightarrow> 'a list \<Rightarrow> 's \<Rightarrow> 's option" where
  "for_each f [] st = Some st"
| "for_each f (x # xs) st = (case f x st of None \<Rightarrow> None | Some st' \<Rightarrow> for_each f xs st')"

lemma for_each_cong [fundef_cong]:
  "xs = ys \<Longrightarrow> st = st' \<Longrightarrow> (\<And>x s. x \<in> set ys \<Longrightarrow> f x s = g x s) \<Longrightarrow>
   for_each f xs st = for_each g ys st'"
  by (induction ys arbitrary: xs st st') (auto split: option.splits)

lemma size_list_member: "c \<in> set cs \<Longrightarrow> size (c::ASTNode) \<le> size_list size cs"
  by (rule size_list_estimation' [where x = c]) auto

lemma size_children: "children node = Some cs \<Longrightarrow> c \<in> set cs \<Longrightarrow> size c < size node"
  using size_list_member [of c cs] by (cases node) auto

lemma size_child: "child node i = Some c \<Longrightarrow> size c < size node"
  using size_children [of node _ c]
  by (auto simp: child_def split: option.splits if_splits)

lemma size_children_drop:
  "child node i = Some c \<Longrightarrow> x \<in> set (drop k (the (children node))) \<Longrightarrow> size x < size node"
  using size_children [of node "the (children node)" x]
  by (auto simp: child_def split: option.splits dest: in_set_dropD)


section \<open>The lexer\<close>

subsection \<open>Character classes of the regular expressions\<close>

text \<open>
  \<open>\s\<close> below code unit 256: tab, line feed, vertical tab, form feed, carriage
  return, space and the no-break space. The dot of a regular expression without the
  \<open>s\<close> flag matches every code unit but the line terminators (line feed and
  carriage return below 256).
\<close>

definition LF :: char where
  "LF = CHR 0x0A"

definition isSpace :: "char \<Rightarrow> bool" where
  "isSpace c = (c \<in> set [CHR 0x09, CHR 0x0A, CHR 0x0B, CHR 0x0C, CHR 0x0D, CHR 0x20, CHR 0xA0])"

definition isLineTerminator :: "char \<Rightarrow> bool" where
  "isLineTerminator c = (c = CHR 0x0A \<or> c = CHR 0x0D)"

definition isDigit :: "char \<Rightarrow> bool" where
  "isDigit c = (c \<in> set ''0123456789'')"

definition isIdentStart :: "char \<Rightarrow> bool" where
  "isIdentStart c =
     (c \<in> set ''abcdefghijklmnopqrstuvwxyzABCDEFGHIJKLMNOPQRSTUVWXYZ_'')"

definition isIdentPart :: "char \<Rightarrow> bool" where
  "isIdentPart c = (isIdentStart c \<or> isDigit c)"

subsection \<open>The tables\<close>

definition KEYWORDS :: "string list" where
  "KEYWORDS = [''int'', ''float'', ''bool'', ''void'', ''if'', ''else'', ''while'', ''for'',
     ''return'', ''true'', ''false'', ''print'', ''read'', ''switch'', ''case'', ''default'',
     ''break'']"

definition OPERATORS :: "string list" where
  "OPERATORS = [''+'', ''-'', ''*'', ''/'', ''%'', ''='', ''=='', ''!='', ''<'', ''>'', ''<='',
     ''>='', ''&&'', ''||'', ''!'']"

definition PUNCTUATION_CHARS :: "string list" where
  "PUNCTUATION_CHARS = [''('', '')'', ''{'', ''}'', ''['', '']'', '';'', '','', ''.'']"

subsection \<open>The patterns\<close>

text \<open>
  Each pattern of \<open>PATTERNS\<close> is anchored at the start of \<open>currentInput\<close>;
  its model returns the matched text (\<open>match[0]\<close>) or \<open>None\<close> where
  \<open>String.prototype.match\<close> returns \<open>null\<close>.
\<close>

text \<open>\<open>/^\s+/\<close>\<close>

definition match_WHITESPACE :: "string \<Rightarrow> string option" where
  "match_WHITESPACE s = (let w = takeWhile isSpace s in if w = [] then None else Some w)"

text \<open>
  \<open>/^\/\/.*$/\<close>: the pattern has no \<open>m\<close> flag, so \<open>$\<close> matches at the end
  of the input only, and the dot stops at a line terminator: the pattern matches when
  the two slashes are followed by no line terminator up to the end of the input,
  and then it matches all of it.
\<close>

definition match_COMMENT_SINGLE :: "string \<Rightarrow> string option" where
  "match_COMMENT_SINGLE s =
     (if prefix ''//'' s \<and> list_all (\<lambda>c. \<not> isLineTerminator c) (drop 2 s)
      then Some s else None)"

text \<open>
  \<open>/^\/\*[\s\S]*?\*\//\<close>: the lazy star stops at the first \<open>*/\<close>.
  \<open>upto_close\<close> is the text from after the opening \<open>/*\<close> to the end of
  that first \<open>*/\<close>.
\<close>

fun upto_close :: "string \<Rightarrow> string option" where
  "upto_close (c # d # r) =
     (if c = CHR ''*'' \<and> d = CHR ''/'' then Some [c, d]
      else map_option ((#) c) (upto_close (d # r)))"
| "upto_close _ = None"

definition match_COMMENT_MULTI :: "string \<Rightarrow> string option" where
  "match_COMMENT_MULTI s =
     (if prefix ''/*'' s then map_option ((@) ''/*'') (upto_close (drop 2 s)) else None)"

text \<open>\<open>/^[0-9]+(\.[0-9]+)?/\<close>\<close>

definition match_NUMBER :: "string \<Rightarrow> string option" where
  "match_NUMBER s =
     (let ds = takeWhile isDigit s; r = dropWhile isDigit s in
      if ds = [] then None
      else (case r of
              c # r' \<Rightarrow>
                (if c = CHR ''.'' \<and> takeWhile isDigit r' \<noteq> []
                 then Some (ds @ [c] @ takeWhile isDigit r') else Some ds)
            | [] \<Rightarrow> Some ds))"

text \<open>\<open>/^[a-zA-Z_][a-zA-Z0-9_]*/\<close>\<close>

definition match_IDENTIFIER :: "string \<Rightarrow> string option" where
  "match_IDENTIFIER s =
     (case s of
        c # r \<Rightarrow> (if isIdentStart c then Some (c # takeWhile isIdentPart r) else None)
      | [] \<Rightarrow> None)"

text \<open>
  \<open>/^"([^"\\]|\\.)*"/\<close>: after the opening quote, a code unit other than the
  quote and the backslash is taken alone, a backslash is taken with the code unit
  after it unless that one is a line terminator, and the first quote met in this
  way closes the match. The two alternatives exclude each other at every position
  and neither can take a quote that stands alone, so backtracking finds no other
  match. \<open>string_body\<close> is the text after the opening quote, closing quote included.
\<close>

definition DQUOTE :: char where
  "DQUOTE = CHR 0x22"

definition BACKSLASH :: char where
  "BACKSLASH = CHR 0x5C"

fun string_body :: "string \<Rightarrow> string option" where
  "string_body [] = None"
| "string_body (c # r) =
     (if c = DQUOTE then Some [c]
      else if c = BACKSLASH then
        (case r of
           [] \<Rightarrow> None
         | d # r' \<Rightarrow>
             (if isLineTerminator d then None
              else map_option (\<lambda>m. c # d # m) (string_body r')))
      else map_option ((#) c) (string_body r))"

definition match_STRING :: "string \<Rightarrow> string option" where
  "match_STRING s =
     (case s of
        c # r \<Rightarrow> (if c = DQUOTE then map_option ((#) c) (string_body r) else None)
      | [] \<Rightarrow> None)"

text \<open>
  \<open>OPERATOR\<close> and \<open>PUNCTUATION\<close> are alternations built from the tables by
  \<open>join("|")\<close>, in the tables' order. An alternation of a JavaScript regular
  expression takes the first alternative that matches, and nothing follows the
  group that could make it backtrack to a later one.
\<close>

definition match_OPERATOR :: "string \<Rightarrow> string option" where
  "match_OPERATOR s = find (\<lambda>op. prefix op s) OPERATORS"

definition match_PUNCTUATION :: "string \<Rightarrow> string option" where
  "match_PUNCTUATION s = find (\<lambda>p. prefix p s) PUNCTUATION_CHARS"

subsection \<open>The scanning loop\<close>

record lexer_state =
  pos :: nat
  line :: nat
  column :: nat
  tokens :: "Token list"
  errors :: "CompilerError list"

text \<open>The loop over the matched whitespace that updates \<open>line\<close> and \<open>column\<close>.\<close>

fun whitespace_position :: "string \<Rightarrow> nat \<times> nat \<Rightarrow> nat \<times> nat" where
  "whitespace_position [] lc = lc"
| "whitespace_position (c # cs) (l, col) =
     whitespace_position cs (if c = LF then (l + 1, 1) else (l, col + 1))"

text \<open>\<open>comment.split("\n")\<close>\<close>

fun split_lines :: "string \<Rightarrow> string list" where
  "split_lines [] = [[]]"
| "split_lines (c # cs) =
     (if c = LF then [] # split_lines cs
      else (case split_lines cs of l # ls \<Rightarrow> (c # l) # ls | [] \<Rightarrow> [[c]]))"

definition push_token :: "token_type \<Rightarrow> string \<Rightarrow> lexer_state \<Rightarrow> lexer_state" where
  "push_token ty v s =
     s\<lparr>tokens := tokens s @ [\<lparr>tok_type = ty, tok_value = v, tok_line = line s,
                                  tok_column = column s\<rparr>],
       pos := pos s + length v,
       column := column s + length v\<rparr>"

text \<open>One iteration of \<open>while (pos < input.length)\<close>, entered with \<open>pos < input.length\<close>.\<close>

definition scan_step :: "string \<Rightarrow> lexer_state \<Rightarrow> lexer_state" where
  "scan_step input s =
     (let currentInput = drop (pos s) input in
      case match_WHITESPACE currentInput of
        Some whitespace \<Rightarrow>
          (let (l, c) = whitespace_position whitespace (line s, column s) in
           s\<lparr>line := l, column := c, pos := pos s + length whitespace\<rparr>)
      | None \<Rightarrow>
      (case match_COMMENT_SINGLE currentInput of
        Some comment \<Rightarrow>
          s\<lparr>pos := pos s + length comment, line := line s + 1, column := 1\<rparr>
      | None \<Rightarrow>
      (case match_COMMENT_MULTI currentInput of
        Some comment \<Rightarrow>
          (let lines = split_lines comment in
           s\<lparr>line := line s + (length lines - 1),
             column := (if length lines > 1 then length (last lines) + 1
                        else column s + length comment),
             pos := pos s + length comment\<rparr>)
      | None \<Rightarrow>
      (case match_IDENTIFIER currentInput of
        Some v \<Rightarrow> push_token (if v \<in> set KEYWORDS then KEYWORD else IDENTIFIER) v s
      | None \<Rightarrow>
      (case match_NUMBER currentInput of
        Some v \<Rightarrow> push_token NUMBER v s
      | None \<Rightarrow>
      (case match_STRING currentInput of
        Some v \<Rightarrow> push_token STRING v s
      | None \<Rightarrow>
      (case match_OPERATOR currentInput of
        Some v \<Rightarrow> push_token OPERATOR v s
      | None \<Rightarrow>
      (case match_PUNCTUATION currentInput of
        Some v \<Rightarrow> push_token PUNCTUATION v s
      | None \<Rightarrow>
          s\<lparr>errors := errors s @ [\<lparr>err_message = ''Unexpected character: '' @ [input ! pos s],
                                      err_line = line s, err_column = column s\<rparr>],
            pos := pos s + 1,
            column := column s + 1\<rparr>))))))))"

text \<open>Every pattern that matches, matches at least one code unit.\<close>

lemma match_WHITESPACE_nonempty: "match_WHITESPACE s = Some w \<Longrightarrow> w \<noteq> []"
  by (auto simp: match_WHITESPACE_def Let_def split: if_splits)

lemma match_COMMENT_SINGLE_nonempty: "match_COMMENT_SINGLE s = Some w \<Longrightarrow> w \<noteq> []"
  by (auto simp: match_COMMENT_SINGLE_def split: if_splits)

lemma match_COMMENT_MULTI_nonempty: "match_COMMENT_MULTI s = Some w \<Longrightarrow> w \<noteq> []"
  by (auto simp: match_COMMENT_MULTI_def split: if_splits)

lemma match_IDENTIFIER_nonempty: "match_IDENTIFIER s = Some w \<Longrightarrow> w \<noteq> []"
  by (auto simp: match_IDENTIFIER_def split: list.splits if_splits)

lemma match_NUMBER_nonempty: "match_NUMBER s = Some w \<Longrightarrow> w \<noteq> []"
  by (auto simp: match_NUMBER_def Let_def split: list.splits if_splits)

lemma match_STRING_nonempty: "match_STRING s = Some w \<Longrightarrow> w \<noteq> []"
  by (auto simp: match_STRING_def split: list.splits if_splits)

lemma find_Some_mem: "find P xs = Some x \<Longrightarrow> x \<in> set xs"
  by (induction xs) (auto split: if_splits)

lemma match_OPERATOR_nonempty: "match_OPERATOR s = Some w \<Longrightarrow> w \<noteq> []"
  unfolding match_OPERATOR_def by (drule find_Some_mem) (auto simp: OPERATORS_def)

lemma match_PUNCTUATION_nonempty: "match_PUNCTUATION s = Some w \<Longrightarrow> w \<noteq> []"
  unfolding match_PUNCTUATION_def by (drule find_Some_mem) (auto simp: PUNCTUATION_CHARS_def)

lemmas match_nonempty =
  match_WHITESPACE_nonempty match_COMMENT_SINGLE_nonempty match_COMMENT_MULTI_nonempty
  match_IDENTIFIER_nonempty match_NUMBER_nonempty match_STRING_nonempty
  match_OPERATOR_nonempty match_PUNCTUATION_nonempty

lemma push_token_pos: "pos (push_token ty v s) = pos s + length v"
  by (simp add: push_token_def)

lemma scan_step_pos: "pos (s::lexer_state) < pos (scan_step input s)"
proof -
  let ?c = "drop (pos s) input"
  note defs = scan_step_def Let_def push_token_pos
  show ?thesis
  proof (cases "match_WHITESPACE ?c")
    case (Some w)
    then show ?thesis
      using match_WHITESPACE_nonempty [of ?c w] by (simp add: defs split: prod.split)
  next
    case n1: None
    show ?thesis
    proof (cases "match_COMMENT_SINGLE ?c")
      case (Some w)
      then show ?thesis
        using n1 match_COMMENT_SINGLE_nonempty [of ?c w] by (simp add: defs)
    next
      case n2: None
      show ?thesis
      proof (cases "match_COMMENT_MULTI ?c")
        case (Some w)
        then show ?thesis
          using n1 n2 match_COMMENT_MULTI_nonempty [of ?c w] by (simp add: defs)
      next
        case n3: None
        show ?thesis
        proof (cases "match_IDENTIFIER ?c")
          case (Some w)
          then show ?thesis
            using n1 n2 n3 match_IDENTIFIER_nonempty [of ?c w] by (simp add: defs)
        next
          case n4: None
          show ?thesis
          proof (cases "match_NUMBER ?c")
            case (Some w)
            then show ?thesis
              using n1 n2 n3 n4 match_NUMBER_nonempty [of ?c w] by (simp add: defs)
          next
            case n5: None
            show ?thesis
            proof (cases "match_STRING ?c")
              case (Some w)
              then show ?thesis
                using n1 n2 n3 n4 n5 match_STRING_nonempty [of ?c w] by (simp add: defs)
            next
              case n6: None
              show ?thesis
              proof (cases "match_OPERATOR ?c")
                case (Some w)
                then show ?thesis
                  using n1 n2 n3 n4 n5 n6 match_OPERATOR_nonempty [of ?c w]
                  by (simp add: defs)
              next
                case n7: None
                show ?thesis
                proof (cases "match_PUNCTUATION ?c")
                  case (Some w)
                  then show ?thesis
                    using n1 n2 n3 n4 n5 n6 n7 match_PUNCTUATION_nonempty [of ?c w]
                    by (simp add: defs)
                next
                  case None
                  then show ?thesis
                    using n1 n2 n3 n4 n5 n6 n7 by (simp add: defs)
                qed
              qed
            qed
          qed
        qed
      qed
    qed
  qed
qed

function tokenize_loop :: "string \<Rightarrow> lexer_state \<Rightarrow> lexer_state" where
  "tokenize_loop input s =
     (if pos s < length input then tokenize_loop input (scan_step input s) else s)"
  by pat_completeness auto
termination
  apply (relation "measure (\<lambda>(input, s). length input - pos s)")
   apply simp
  subgoal for input s
    using scan_step_pos [of s input] by simp
  done

declare tokenize_loop.simps [simp del]

definition initial_state :: lexer_state where
  "initial_state = \<lparr>pos = 0, line = 1, column = 1, tokens = [], errors = []\<rparr>"

definition tokenize :: "string \<Rightarrow> Token list \<times> CompilerError list" where
  "tokenize input = (let s = tokenize_loop input initial_state in (tokens s, errors s))"

section \<open>The semantic analyzer\<close>

subsection \<open>Symbols, scopes and the symbol table (types.ts)\<close>

text \<open>
  The records \<open>scopes\<close> and \<open>symbols\<close> are association lists in insertion
  order, the order in which a JavaScript object lists its string keys: an assignment
  to a key that is present replaces its value in place, one to a new key appends.
  As for \<open>constants\<close> above, properties inherited from \<open>Object.prototype\<close>
  are left out. \<open>declareSymbol\<close> sets every field of a symbol, so
  \<open>initialized\<close> is a plain boolean.
\<close>

datatype symbol_kind = Variable | Function | Parameter

record Symbol =
  sym_name :: string
  sym_type :: string
  sym_kind :: symbol_kind
  sym_line :: nat
  sym_column :: nat
  sym_initialized :: bool
  sym_params :: "(string \<times> string) list option"
  sym_returnType :: "string option"

record Scope =
  parent :: "string option"
  symbols :: "(string \<times> Symbol) list"

record SymbolTable =
  scopes :: "(string \<times> Scope) list"
  currentScope :: string

text \<open>
  The state of one call of \<open>analyze\<close>: the symbol table, the error list, and the
  number of calls of \<open>Math.random\<close> made so far.
\<close>

record sem_state =
  symbolTable :: SymbolTable
  sem_errors :: "CompilerError list"
  draws :: nat

definition lookup_scope :: "sem_state \<Rightarrow> string \<Rightarrow> Scope option" where
  "lookup_scope st n = map_of (scopes (symbolTable st)) n"

definition set_scope :: "string \<Rightarrow> Scope \<Rightarrow> sem_state \<Rightarrow> sem_state" where
  "set_scope n sc st =
     st\<lparr>symbolTable := (symbolTable st)\<lparr>scopes := AList.update n sc (scopes (symbolTable st))\<rparr>\<rparr>"

definition set_current :: "string \<Rightarrow> sem_state \<Rightarrow> sem_state" where
  "set_current n st = st\<lparr>symbolTable := (symbolTable st)\<lparr>currentScope := n\<rparr>\<rparr>"

definition error_at :: "string \<Rightarrow> nat option \<Rightarrow> nat option \<Rightarrow> CompilerError" where
  "error_at msg l c = \<lparr>err_message = msg, err_line = or_zero l, err_column = or_zero c\<rparr>"

definition add_error :: "CompilerError \<Rightarrow> sem_state \<Rightarrow> sem_state" where
  "add_error e st = st\<lparr>sem_errors := sem_errors st @ [e]\<rparr>"

text \<open>A name between single quotes, as the messages print it.\<close>

definition quoted :: "string \<Rightarrow> string" where
  "quoted s = [CHR 0x27] @ s @ [CHR 0x27]"

text \<open>\<open>String.prototype.toLowerCase\<close> on the letters A to Z.\<close>

definition toLowerCase :: "string \<Rightarrow> string" where
  "toLowerCase s =
     map (\<lambda>c. case map_of (zip ''ABCDEFGHIJKLMNOPQRSTUVWXYZ'' ''abcdefghijklmnopqrstuvwxyz'') c of
                 None \<Rightarrow> c | Some l \<Rightarrow> l) s"

subsection \<open>The helpers of \<open>analyze\<close>\<close>

definition enterScope :: "string \<Rightarrow> sem_state \<Rightarrow> sem_state" where
  "enterScope scopeName st =
     set_current scopeName
       (set_scope scopeName \<lparr>parent = Some (currentScope (symbolTable st)), symbols = []\<rparr> st)"

text \<open>
  \<open>exitScope\<close> reads \<open>parent\<close> of the scope registered under the current name;
  \<open>None\<close> is the \<open>TypeError\<close> where no scope is registered under it.
\<close>

definition exitScope :: "sem_state \<Rightarrow> sem_state option" where
  "exitScope st =
     (case lookup_scope st (currentScope (symbolTable st)) of
        None \<Rightarrow> None
      | Some sc \<Rightarrow> Some (set_current (or_else (parent sc) ''global'') st))"

definition declareSymbol ::
  "string \<Rightarrow> string \<Rightarrow> symbol_kind \<Rightarrow> ASTNode \<Rightarrow> (string \<times> string) list option \<Rightarrow>
   string option \<Rightarrow> sem_state \<Rightarrow> sem_state option" where
  "declareSymbol name ty kind node params returnType st =
     (case lookup_scope st (currentScope (symbolTable st)) of
        None \<Rightarrow> None
      | Some scope \<Rightarrow>
          (case map_of (symbols scope) name of
             Some prior \<Rightarrow>
               Some (add_error
                 (error_at (''Redeclaration of '' @ quoted name @
                      ''. It was already declared at line '' @ show_nat (sym_line prior) @
                      '', column '' @ show_nat (sym_column prior))
                    (node_line node) (node_column node)) st)
           | None \<Rightarrow>
               Some (set_scope (currentScope (symbolTable st))
                 (scope\<lparr>symbols := AList.update name
                    \<lparr>sym_name = name, sym_type = ty, sym_kind = kind,
                     sym_line = or_zero (node_line node), sym_column = or_zero (node_column node),
                     sym_initialized = (kind = Parameter \<or> kind = Function),
                     sym_params = params, sym_returnType = returnType\<rparr> (symbols scope)\<rparr>) st)))"

text \<open>
  The loop of \<open>resolveSymbol\<close> walks the parent links from the current scope. It
  ends when it finds the name or reaches a scope without parent; on a cycle of
  parent links it does not end. The result \<open>None\<close> stands for both ways in which
  the source does not return: the loop that does not end and the \<open>TypeError\<close>
  on a name with no scope. \<open>Some None\<close> is the name not found; a symbol that is
  found comes with the name of its scope.
\<close>

partial_function (option) resolve_loop ::
  "SymbolTable \<Rightarrow> string \<Rightarrow> string \<Rightarrow> (string \<times> Symbol) option option" where
  "resolve_loop tab name currentScopeName =
     (if currentScopeName = [] then Some None
      else (case map_of (scopes tab) currentScopeName of
              None \<Rightarrow> None
            | Some scope \<Rightarrow>
                (case map_of (symbols scope) name of
                   Some symbol \<Rightarrow> Some (Some (currentScopeName, symbol))
                 | None \<Rightarrow> resolve_loop tab name (or_else (parent scope) []))))"

declare resolve_loop.simps [code]

definition resolveSymbol ::
  "SymbolTable \<Rightarrow> string \<Rightarrow> ASTNode \<Rightarrow> CompilerError list \<Rightarrow>
   ((string \<times> Symbol) option \<times> CompilerError list) option" where
  "resolveSymbol tab name node errs =
     (case resolve_loop tab name (currentScope tab) of
        None \<Rightarrow> None
      | Some (Some found) \<Rightarrow> Some (Some found, errs)
      | Some None \<Rightarrow>
          Some (None, errs @ [error_at (''Undefined symbol '' @ quoted name)
                                 (node_line node) (node_column node)]))"

text \<open>The test \<open>expected !== actual && !(expected === "float" && actual === "int")\<close>.\<close>

definition type_mismatch :: "string \<Rightarrow> string \<Rightarrow> bool" where
  "type_mismatch expected actual =
     (expected \<noteq> actual \<and> \<not> (expected = ''float'' \<and> actual = ''int''))"

text \<open>
  \<open>getTypeOfNode\<close> reads the symbol table and appends to the error list; it
  returns the type with the new error list.
\<close>

function getTypeOfNode ::
  "SymbolTable \<Rightarrow> ASTNode \<Rightarrow> CompilerError list \<Rightarrow> (string \<times> CompilerError list) option" where
  "getTypeOfNode tab node errs =
   (let t = node_type node in
    if t = ''NumberLiteral'' then
      Some (case node_value node of
              None \<Rightarrow> ''int''
            | Some v \<Rightarrow> if CHR ''.'' \<in> set v then ''float'' else ''int'', errs)
    else if t = ''StringLiteral'' then Some (''string'', errs)
    else if t = ''BooleanLiteral'' then Some (''bool'', errs)
    else if t = ''Identifier'' then
      (case resolveSymbol tab (or_else (node_value node) []) node errs of
         None \<Rightarrow> None
       | Some (None, errs1) \<Rightarrow> Some (''unknown'', errs1)
       | Some (Some (_, symbol), errs1) \<Rightarrow> Some (sym_type symbol, errs1))
    else if t \<in> set [''Addition'', ''Subtraction'', ''Multiplication'', ''Division'', ''Modulo''] then
      (case child node 0 of None \<Rightarrow> None | Some c0 \<Rightarrow>
       (case getTypeOfNode tab c0 errs of None \<Rightarrow> None
        | Some (leftType, errs1) \<Rightarrow>
       (case child node 1 of None \<Rightarrow> None | Some c1 \<Rightarrow>
        (case getTypeOfNode tab c1 errs1 of None \<Rightarrow> None
         | Some (rightType, errs2) \<Rightarrow>
        if leftType = ''int'' \<and> rightType = ''int'' then Some (''int'', errs2)
        else if (leftType = ''int'' \<or> leftType = ''float'') \<and>
                (rightType = ''int'' \<or> rightType = ''float'') then Some (''float'', errs2)
        else Some (''unknown'',
               errs2 @ [error_at (''Invalid operand types for '' @ toLowerCase t @ '': '' @
                                    leftType @ '' and '' @ rightType)
                          (node_line node) (node_column node)])))))
    else if t \<in> set [''Equal'', ''NotEqual'', ''LessThan'', ''GreaterThan'', ''LessThanEqual'',
                      ''GreaterThanEqual''] then Some (''bool'', errs)
    else if t \<in> set [''LogicalAnd'', ''LogicalOr'', ''LogicalNot''] then Some (''bool'', errs)
    else if t = ''Negation'' then
      (case child node 0 of None \<Rightarrow> None | Some c0 \<Rightarrow>
       (case getTypeOfNode tab c0 errs of None \<Rightarrow> None
        | Some (exprType, errs1) \<Rightarrow>
            Some (exprType,
                  if exprType \<noteq> ''int'' \<and> exprType \<noteq> ''float''
                  then errs1 @ [error_at (''Cannot negate type '' @ exprType)
                                  (node_line node) (node_column node)]
                  else errs1)))
    else if t = ''FunctionCall'' then
      (case child node 0 of None \<Rightarrow> None | Some callee \<Rightarrow>
       let funcName = or_else (node_value callee) [] in
       (case resolveSymbol tab funcName node errs of
          None \<Rightarrow> None
        | Some (None, errs1) \<Rightarrow> Some (''unknown'', errs1)
        | Some (Some (_, funcSymbol), errs1) \<Rightarrow>
            if sym_kind funcSymbol = Function then
              (let expectedArgCount = (case sym_params funcSymbol of None \<Rightarrow> 0 | Some ps \<Rightarrow> length ps);
                   actualArgCount = the (child_count node) - 1 in
               (case (if expectedArgCount \<noteq> actualArgCount then
                        Some (errs1 @ [error_at (''Function '' @ quoted funcName @ '' expects '' @
                                  show_nat expectedArgCount @ '' arguments, but got '' @
                                  show_nat actualArgCount)
                                (node_line node) (node_column node)])
                      else
                        for_each (\<lambda>i es.
                            (case child node (i + 1) of None \<Rightarrow> None | Some a \<Rightarrow>
                             (case getTypeOfNode tab a es of None \<Rightarrow> None
                              | Some (actualType, es1) \<Rightarrow>
                                  let expectedType = snd (the (sym_params funcSymbol) ! i) in
                                  Some (if type_mismatch expectedType actualType
                                        then es1 @ [error_at (''Argument '' @ show_nat (i + 1) @
                                               '' of function '' @ quoted funcName @
                                               '' expects type '' @ expectedType @
                                               '', but got '' @ actualType)
                                             (node_line a) (node_column a)]
                                        else es1))))
                          [0..<actualArgCount] errs1) of
                  None \<Rightarrow> None
                | Some errs2 \<Rightarrow> Some (or_else (sym_returnType funcSymbol) ''void'', errs2)))
            else Some (''unknown'', errs1)))
    else Some (''unknown'', errs))"
  by pat_completeness auto
termination
  by (relation "measure (\<lambda>(tab, node, errs). size node)") (auto dest: size_child)

declare getTypeOfNode.simps [simp del]


subsection \<open>The cases of \<open>visitNode\<close>\<close>

text \<open>\<open>symbol.initialized = true\<close> on the symbol \<open>name\<close> of the scope \<open>scopeName\<close>.\<close>

definition mark_initialized :: "string \<Rightarrow> string \<Rightarrow> sem_state \<Rightarrow> sem_state" where
  "mark_initialized scopeName name st =
     (case lookup_scope st scopeName of
        None \<Rightarrow> st
      | Some sc \<Rightarrow>
          (case map_of (symbols sc) name of
             None \<Rightarrow> st
           | Some symbol \<Rightarrow>
               set_scope scopeName
                 (sc\<lparr>symbols := AList.update name (symbol\<lparr>sym_initialized := True\<rparr>) (symbols sc)\<rparr>)
                 st))"

text \<open>Case \<open>Program\<close>, after the children: the check for \<open>main\<close>.\<close>

definition check_main :: "sem_state \<Rightarrow> sem_state option" where
  "check_main st =
     (case lookup_scope st ''global'' of
        None \<Rightarrow> None
      | Some g \<Rightarrow>
          Some (if (case map_of (symbols g) ''main'' of
                      None \<Rightarrow> True
                    | Some mainSymbol \<Rightarrow> sym_kind mainSymbol \<noteq> Function)
                then add_error (error_at ''Program must have a main function'' None None) st
                else st))"

text \<open>
  Case \<open>FunctionDeclaration\<close>, up to the visit of the body. \<open>param_list\<close> reads
  the parameters: name and type of each, with the node of its name.
\<close>

definition param_list :: "ASTNode \<Rightarrow> ((string \<times> string) \<times> ASTNode) list option" where
  "param_list paramsNode =
     (case children paramsNode of
        None \<Rightarrow> Some []
      | Some ps \<Rightarrow>
          those (map (\<lambda>paramNode.
                   (case child paramNode 0 of None \<Rightarrow> None | Some typeNode \<Rightarrow>
                    (case child paramNode 1 of None \<Rightarrow> None | Some nameNode \<Rightarrow>
                       Some ((or_else (node_value nameNode) [], or_else (node_value typeNode) []),
                             nameNode)))) ps))"

definition function_name :: "ASTNode \<Rightarrow> string" where
  "function_name node =
     (case child node 1 of None \<Rightarrow> [] | Some nameNode \<Rightarrow> or_else (node_value nameNode) [])"

definition enter_function :: "ASTNode \<Rightarrow> sem_state \<Rightarrow> sem_state option" where
  "enter_function node st =
     (case child node 0 of None \<Rightarrow> None | Some typeNode \<Rightarrow>
      (case child node 1 of None \<Rightarrow> None | Some nameNode \<Rightarrow>
       (case child node 2 of None \<Rightarrow> None | Some paramsNode \<Rightarrow>
        (case param_list paramsNode of None \<Rightarrow> None | Some params \<Rightarrow>
         let returnType = or_else (node_value typeNode) ''void'';
             funcName = function_name node in
         (case declareSymbol funcName ''function'' Function nameNode (Some (map fst params))
                 (Some returnType) st of
            None \<Rightarrow> None
          | Some st1 \<Rightarrow>
              for_each (\<lambda>((paramName, paramType), nameNode).
                          declareSymbol paramName paramType Parameter nameNode None None)
                params (enterScope (''function_'' @ funcName) st1))))))"

text \<open>Case \<open>VariableDeclaration\<close>.\<close>

definition visit_VariableDeclaration :: "ASTNode \<Rightarrow> sem_state \<Rightarrow> sem_state option" where
  "visit_VariableDeclaration node st =
     (case child node 0 of None \<Rightarrow> None | Some typeNode \<Rightarrow>
      (case child node 1 of None \<Rightarrow> None | Some nameNode \<Rightarrow>
       let varType = or_else (node_value typeNode) [];
           varName = or_else (node_value nameNode) [] in
       (case declareSymbol varName varType Variable nameNode None None st of
          None \<Rightarrow> None
        | Some st1 \<Rightarrow>
            if the (child_count node) > 2 then
              (case child node 2 of None \<Rightarrow> None | Some initExpr \<Rightarrow>
               (case getTypeOfNode (symbolTable st1) initExpr (sem_errors st1) of
                  None \<Rightarrow> None
                | Some (exprType, errs1) \<Rightarrow>
                    Some (mark_initialized (currentScope (symbolTable st1)) varName
                      (st1\<lparr>sem_errors :=
                         (if type_mismatch varType exprType
                          then errs1 @ [error_at (''Cannot initialize variable of type '' @
                                   quoted varType @ '' with value of type '' @ quoted exprType)
                                 (node_line initExpr) (node_column initExpr)]
                          else errs1)\<rparr>))))
            else Some st1)))"

text \<open>Cases \<open>IfStatement\<close>, \<open>WhileStatement\<close> and \<open>ForStatement\<close>, before the children.\<close>

definition check_condition :: "ASTNode \<Rightarrow> sem_state \<Rightarrow> sem_state option" where
  "check_condition node st =
     (case child node 0 of None \<Rightarrow> None | Some conditionNode \<Rightarrow>
      (case getTypeOfNode (symbolTable st) conditionNode (sem_errors st) of
         None \<Rightarrow> None
       | Some (conditionType, errs1) \<Rightarrow>
           Some (st\<lparr>sem_errors :=
             (if conditionType \<noteq> ''bool''
              then errs1 @ [error_at (''Condition must be of type '' @ quoted ''bool'' @
                              '', but got '' @ quoted conditionType)
                            (node_line conditionNode) (node_column conditionNode)]
              else errs1)\<rparr>)))"

text \<open>
  Case \<open>ReturnStatement\<close>, before the children. The loop that looks for the
  enclosing function scope walks the parent links like the loop of
  \<open>resolveSymbol\<close>, with the same two ways of not returning.
\<close>

partial_function (option) function_scope_loop ::
  "SymbolTable \<Rightarrow> string \<Rightarrow> string option option" where
  "function_scope_loop tab currentScopeName =
     (if currentScopeName = [] then Some None
      else if prefix ''function_'' currentScopeName then Some (Some currentScopeName)
      else (case map_of (scopes tab) currentScopeName of
              None \<Rightarrow> None
            | Some scope \<Rightarrow> function_scope_loop tab (or_else (parent scope) [])))"

declare function_scope_loop.simps [code]

definition check_return :: "ASTNode \<Rightarrow> sem_state \<Rightarrow> sem_state option" where
  "check_return node st =
     (case function_scope_loop (symbolTable st) (currentScope (symbolTable st)) of
        None \<Rightarrow> None
      | Some None \<Rightarrow> Some st
      | Some (Some functionScope) \<Rightarrow>
          let functionName = drop 9 functionScope in
          (case lookup_scope st ''global'' of None \<Rightarrow> None | Some g \<Rightarrow>
           (case map_of (symbols g) functionName of
              None \<Rightarrow> Some st
            | Some functionSymbol \<Rightarrow>
                let expectedReturnType = or_else (sym_returnType functionSymbol) ''void'' in
                (case child_count node of None \<Rightarrow> None | Some n \<Rightarrow>
                 if n > 0 then
                   (case child node 0 of None \<Rightarrow> None | Some returnExpr \<Rightarrow>
                    (case getTypeOfNode (symbolTable st) returnExpr (sem_errors st) of
                       None \<Rightarrow> None
                     | Some (actualReturnType, errs1) \<Rightarrow>
                         Some (st\<lparr>sem_errors :=
                           (if expectedReturnType = ''void''
                            then errs1 @ [error_at (''Function '' @ quoted functionName @
                                     '' has void return type but returns a value'')
                                   (node_line node) (node_column node)]
                            else if type_mismatch expectedReturnType actualReturnType
                            then errs1 @ [error_at (''Function '' @ quoted functionName @
                                     '' expects return type '' @ quoted expectedReturnType @
                                     '', but got '' @ quoted actualReturnType)
                                   (node_line returnExpr) (node_column returnExpr)]
                            else errs1)\<rparr>)))
                 else
                   Some (if expectedReturnType \<noteq> ''void''
                         then add_error (error_at (''Function '' @ quoted functionName @
                                  '' expects return type '' @ quoted expectedReturnType @
                                  '', but no value is returned'')
                                (node_line node) (node_column node)) st
                         else st)))))"

text \<open>Case \<open>Assignment\<close>, before the children.\<close>

definition check_assignment :: "ASTNode \<Rightarrow> sem_state \<Rightarrow> sem_state option" where
  "check_assignment node st =
     (case child node 0 of None \<Rightarrow> None | Some leftNode \<Rightarrow>
      if node_type leftNode \<noteq> ''Identifier'' then
        Some (add_error (error_at ''Left side of assignment must be a variable''
                           (node_line leftNode) (node_column leftNode)) st)
      else
        let varName = or_else (node_value leftNode) [] in
        (case resolveSymbol (symbolTable st) varName leftNode (sem_errors st) of
           None \<Rightarrow> None
         | Some (None, errs1) \<Rightarrow> Some (st\<lparr>sem_errors := errs1\<rparr>)
         | Some (Some (scopeName, symbol), errs1) \<Rightarrow>
             if sym_kind symbol \<noteq> Variable \<and> sym_kind symbol \<noteq> Parameter then
               Some (st\<lparr>sem_errors := errs1 @
                 [error_at (''Cannot assign to '' @ quoted varName @
                              '' because it is not a variable'')
                    (node_line leftNode) (node_column leftNode)]\<rparr>)
             else
               (case child node 1 of None \<Rightarrow> None | Some rightNode \<Rightarrow>
                (case getTypeOfNode (symbolTable st) rightNode errs1 of
                   None \<Rightarrow> None
                 | Some (rightType, errs2) \<Rightarrow>
                     Some (mark_initialized scopeName varName
                       (st\<lparr>sem_errors :=
                          (if type_mismatch (sym_type symbol) rightType
                           then errs2 @ [error_at (''Cannot assign value of type '' @
                                    quoted rightType @ '' to variable of type '' @
                                    quoted (sym_type symbol))
                                  (node_line node) (node_column node)]
                           else errs2)\<rparr>))))))"

text \<open>What a case does before it visits the children of the node.\<close>

definition before_children :: "ASTNode \<Rightarrow> sem_state \<Rightarrow> sem_state option" where
  "before_children node st =
     (let t = node_type node in
      if t = ''IfStatement'' \<or> t = ''WhileStatement'' \<or> t = ''ForStatement''
        then check_condition node st
      else if t = ''ReturnStatement'' then check_return node st
      else if t = ''Assignment'' then check_assignment node st
      else Some st)"

subsection \<open>The walk\<close>

text \<open>
  \<open>random\<close> gives the text that \<open>Math.random().toString(36).substr(2, 9)\<close>
  yields at each call: \<open>random k\<close> is the text of call number \<open>k\<close> of the run.
  As in the IR generator, \<open>None\<close> is a run that does not return.
\<close>

function visitNode_sem :: "(nat \<Rightarrow> string) \<Rightarrow> ASTNode \<Rightarrow> sem_state \<Rightarrow> sem_state option" where
  "visitNode_sem random node st =
   (let t = node_type node;
        visitChildren = (\<lambda>s. case children node of
            None \<Rightarrow> Some s
          | Some cs \<Rightarrow> for_each (visitNode_sem random) cs s) in
    if t = ''FunctionDeclaration'' then
      (case enter_function node st of None \<Rightarrow> None | Some st1 \<Rightarrow>
       (case (if the (child_count node) > 3
              then (case child node 3 of None \<Rightarrow> None
                    | Some body \<Rightarrow> visitNode_sem random body st1)
              else Some st1) of
          None \<Rightarrow> None
        | Some st2 \<Rightarrow> exitScope st2))
    else if t = ''VariableDeclaration'' then visit_VariableDeclaration node st
    else if t = ''Block'' then
      (let blockId = ''block_'' @ random (draws st) in
       (case visitChildren (enterScope blockId (st\<lparr>draws := draws st + 1\<rparr>)) of
          None \<Rightarrow> None
        | Some st1 \<Rightarrow> exitScope st1))
    else
      (case before_children node st of None \<Rightarrow> None | Some st1 \<Rightarrow>
       (case visitChildren st1 of None \<Rightarrow> None | Some st2 \<Rightarrow>
        if t = ''Program'' then check_main st2 else Some st2)))"
  by pat_completeness auto
termination
  by (relation "measure (\<lambda>(random, node, st). size node)")
     (auto dest: size_child size_children)

declare visitNode_sem.simps [simp del]

text \<open>\<open>visitChildren\<close>, which the walk calls on a node.\<close>

definition visitChildren_sem :: "(nat \<Rightarrow> string) \<Rightarrow> ASTNode \<Rightarrow> sem_state \<Rightarrow> sem_state option" where
  "visitChildren_sem random node s =
     (case children node of
        None \<Rightarrow> Some s
      | Some cs \<Rightarrow> for_each (visitNode_sem random) cs s)"


definition initial_sem_state :: sem_state where
  "initial_sem_state =
     \<lparr>symbolTable = \<lparr>scopes = [(''global'', \<lparr>parent = None, symbols = []\<rparr>)],
                      currentScope = ''global''\<rparr>,
      sem_errors = [], draws = 0\<rparr>"

definition analyze :: "(nat \<Rightarrow> string) \<Rightarrow> ASTNode \<Rightarrow> (SymbolTable \<times> CompilerError list) option" where
  "analyze random ast =
     map_option (\<lambda>st. (symbolTable st, sem_errors st)) (visitNode_sem random ast initial_sem_state)"


subsection \<open>Measures of a tree\<close>

text \<open>
  The number of \<open>Block\<close> nodes of a tree bounds the number of calls of
  \<open>Math.random\<close> in a run. \<open>declared_functions\<close> lists the names of the
  \<open>FunctionDeclaration\<close> nodes of a tree, and \<open>no_namesake_inside\<close> holds when
  no \<open>FunctionDeclaration\<close> node has a descendant that declares a function of
  the same name.
\<close>

fun block_count :: "ASTNode \<Rightarrow> nat" where
  "block_count (ASTNode t v l c cs) =
     (if t = ''Block'' then 1 else 0) +
     (case cs of None \<Rightarrow> 0 | Some ns \<Rightarrow> sum_list (map block_count ns))"

fun declared_functions :: "ASTNode \<Rightarrow> string list" where
  "declared_functions (ASTNode t v l c cs) =
     (if t = ''FunctionDeclaration'' then [function_name (ASTNode t v l c cs)] else []) @
     (case cs of None \<Rightarrow> [] | Some ns \<Rightarrow> concat (map declared_functions ns))"

fun no_namesake_inside :: "ASTNode \<Rightarrow> bool" where
  "no_namesake_inside (ASTNode t v l c cs) =
     (case cs of
        None \<Rightarrow> True
      | Some ns \<Rightarrow>
          (if t = ''FunctionDeclaration''
           then function_name (ASTNode t v l c cs) \<notin> set (concat (map declared_functions ns))
           else True) \<and>
          list_all no_namesake_inside ns)"


subsection \<open>The shape of an analyzer state\<close>

text \<open>
  The shape of a state: the current scope, the number of draws, and the parent link
  registered under each scope name.
\<close>

definition parent_of :: "sem_state \<Rightarrow> string \<Rightarrow> string option option" where
  "parent_of st n = map_option parent (lookup_scope st n)"

definition current :: "sem_state \<Rightarrow> string" where
  "current st = currentScope (symbolTable st)"

definition same_shape :: "sem_state \<Rightarrow> sem_state \<Rightarrow> bool" where
  "same_shape st st' = (current st' = current st \<and> draws st' = draws st \<and> parent_of st' = parent_of st)"

text \<open>
  The scope names that a walk can register: those of the blocks, made from the draws
  of the walk, and those of the functions that the tree declares.
\<close>

definition block_names :: "(nat \<Rightarrow> string) \<Rightarrow> nat \<Rightarrow> nat \<Rightarrow> string set" where
  "block_names random k k' = (\<lambda>j. ''block_'' @ random j) ` {k..<k'}"

definition function_scopes :: "ASTNode \<Rightarrow> string set" where
  "function_scopes node = (\<lambda>f. ''function_'' @ f) ` set (declared_functions node)"

definition children_scopes :: "ASTNode \<Rightarrow> string set" where
  "children_scopes node =
     (case children node of None \<Rightarrow> {} | Some cs \<Rightarrow> \<Union> (function_scopes ` set cs))"

text \<open>
  A stretch of the walk is \<open>scoped\<close> when it ends in the scope in which it began
  and leaves the parent link of every scope name alone that it could not register.
\<close>

definition scoped :: "(nat \<Rightarrow> string) \<Rightarrow> string set \<Rightarrow> sem_state \<Rightarrow> sem_state \<Rightarrow> bool" where
  "scoped random F st st' =
     (current st' = current st \<and> draws st \<le> draws st' \<and>
      (\<forall>n. n \<notin> block_names random (draws st) (draws st') \<union> F \<longrightarrow>
           parent_of st' n = parent_of st n))"

section \<open>The IR generator (ir-generator.ts)\<close>

text \<open>
  The state of one call of \<open>generateIR\<close>: the instruction list and the two
  counters, which the call resets before it walks the tree.
\<close>

record ir_state =
  instructions :: "IRInstruction list"
  tempCounter :: nat
  labelCounter :: nat

definition instr :: "string \<Rightarrow> string option \<Rightarrow> string option \<Rightarrow> string option \<Rightarrow> IRInstruction" where
  "instr o' r a1 a2 = \<lparr>op = o', result = r, arg1 = a1, arg2 = a2\<rparr>"

definition push :: "IRInstruction \<Rightarrow> ir_state \<Rightarrow> ir_state" where
  "push i st = st\<lparr>instructions := instructions st @ [i]\<rparr>"

definition newTemp :: "ir_state \<Rightarrow> string \<times> ir_state" where
  "newTemp st = (''t'' @ show_nat (tempCounter st), st\<lparr>tempCounter := tempCounter st + 1\<rparr>)"

definition newLabel :: "ir_state \<Rightarrow> string \<times> ir_state" where
  "newLabel st = (''L'' @ show_nat (labelCounter st), st\<lparr>labelCounter := labelCounter st + 1\<rparr>)"

text \<open>
  The eleven cases for binary operators and the two for unary operators differ in
  the opcode only; the tables give the opcode of a node type.
\<close>

definition binary_opcode :: "string \<Rightarrow> string option" where
  "binary_opcode t =
     map_of [(''Equal'', ''EQ''), (''NotEqual'', ''NE''), (''LessThan'', ''LT''),
       (''GreaterThan'', ''GT''), (''LessThanEqual'', ''LE''), (''GreaterThanEqual'', ''GE''),
       (''Addition'', ''ADD''), (''Subtraction'', ''SUB''), (''Multiplication'', ''MUL''),
       (''Division'', ''DIV''), (''Modulo'', ''MOD'')] t"

definition unary_opcode :: "string \<Rightarrow> string option" where
  "unary_opcode t = map_of [(''LogicalNot'', ''NOT''), (''Negation'', ''NEG'')] t"

text \<open>
  \<open>visitNode\<close> returns the operand of the node (\<open>None\<close> for \<open>null\<close>) with the
  new state; the outer \<open>None\<close> stands for a \<open>TypeError\<close> thrown on a missing
  child, where \<open>generateIR\<close> returns nothing.
\<close>

function visitNode :: "ASTNode \<Rightarrow> ir_state \<Rightarrow> (string option \<times> ir_state) option" where
  "visitNode node st =
   (let t = node_type node;
        visitChildren = (case children node of
            None \<Rightarrow> Some (None, st)
          | Some cs \<Rightarrow>
              map_option (Pair None)
                (for_each (\<lambda>c s. map_option snd (visitNode c s)) cs st)) in
    if t = ''Program'' then visitChildren
    else if t = ''FunctionDeclaration'' then
      (case child node 1 of None \<Rightarrow> None | Some nameNode \<Rightarrow>
       let funcName = or_else (node_value nameNode) [];
           st1 = push (instr ''ENTER'' None None None)
                   (push (instr ''LABEL'' (Some funcName) None None) st) in
       (case (if the (child_count node) > 3
              then (case child node 3 of None \<Rightarrow> None
                    | Some body \<Rightarrow> map_option snd (visitNode body st1))
              else Some st1) of
          None \<Rightarrow> None
        | Some st2 \<Rightarrow>
            Some (None, push (instr ''RET'' None None None)
                          (push (instr ''LEAVE'' None None None) st2))))
    else if t = ''VariableDeclaration'' then
      (case child node 1 of None \<Rightarrow> None | Some nameNode \<Rightarrow>
       let varName = or_else (node_value nameNode) [] in
       if the (child_count node) > 2 then
         (case child node 2 of None \<Rightarrow> None | Some init \<Rightarrow>
          (case visitNode init st of None \<Rightarrow> None
           | Some (exprResult, st1) \<Rightarrow>
               Some (None, if truthy exprResult
                           then push (instr ''ASSIGN'' (Some varName) exprResult None) st1
                           else st1)))
       else Some (None, st))
    else if t = ''Block'' then visitChildren
    else if t = ''IfStatement'' then
      (case child node 0 of None \<Rightarrow> None | Some c0 \<Rightarrow>
       (case visitNode c0 st of None \<Rightarrow> None
        | Some (condition, st1) \<Rightarrow>
       let (elseLabel, st2) = newLabel st1;
           (endLabel, st3) = newLabel st2;
           st4 = push (instr ''JUMPFALSE'' (Some elseLabel) (Some (or_else condition [])) None) st3 in
       (case child node 1 of None \<Rightarrow> None | Some c1 \<Rightarrow>
        (case visitNode c1 st4 of None \<Rightarrow> None
         | Some (_, st5) \<Rightarrow>
        let st6 = push (instr ''LABEL'' (Some elseLabel) None None)
                    (push (instr ''JUMP'' (Some endLabel) None None) st5) in
        (case (if the (child_count node) > 2
               then (case child node 2 of None \<Rightarrow> None
                     | Some c2 \<Rightarrow> map_option snd (visitNode c2 st6))
               else Some st6) of
           None \<Rightarrow> None
         | Some st7 \<Rightarrow> Some (None, push (instr ''LABEL'' (Some endLabel) None None) st7))))))
    else if t = ''WhileStatement'' then
      (let (startLabel, st1) = newLabel st;
           (whileEndLabel, st2) = newLabel st1;
           st3 = push (instr ''LABEL'' (Some startLabel) None None) st2 in
       (case child node 0 of None \<Rightarrow> None | Some c0 \<Rightarrow>
        (case visitNode c0 st3 of None \<Rightarrow> None
         | Some (whileCondition, st4) \<Rightarrow>
        let st5 = push (instr ''JUMPFALSE'' (Some whileEndLabel)
                          (Some (or_else whileCondition [])) None) st4 in
        (case child node 1 of None \<Rightarrow> None | Some c1 \<Rightarrow>
         (case visitNode c1 st5 of None \<Rightarrow> None
          | Some (_, st6) \<Rightarrow>
              Some (None, push (instr ''LABEL'' (Some whileEndLabel) None None)
                            (push (instr ''JUMP'' (Some startLabel) None None) st6)))))))
    else if t = ''ForStatement'' then
      (case child node 0 of None \<Rightarrow> None | Some c0 \<Rightarrow>
       (case (if node_type c0 \<noteq> ''Empty'' then map_option snd (visitNode c0 st) else Some st) of
          None \<Rightarrow> None
        | Some st1 \<Rightarrow>
       let (forStartLabel, st2) = newLabel st1;
           (forEndLabel, st3) = newLabel st2;
           st4 = push (instr ''LABEL'' (Some forStartLabel) None None) st3 in
       (case child node 1 of None \<Rightarrow> None | Some c1 \<Rightarrow>
        (case (if node_type c1 \<noteq> ''Empty''
               then (case visitNode c1 st4 of None \<Rightarrow> None
                     | Some (forCondition, st5) \<Rightarrow>
                         Some (push (instr ''JUMPFALSE'' (Some forEndLabel)
                                       (Some (or_else forCondition [])) None) st5))
               else Some st4) of
           None \<Rightarrow> None
         | Some st6 \<Rightarrow>
        (case child node 3 of None \<Rightarrow> None | Some c3 \<Rightarrow>
         (case visitNode c3 st6 of None \<Rightarrow> None
          | Some (_, st7) \<Rightarrow>
         (case child node 2 of None \<Rightarrow> None | Some c2 \<Rightarrow>
          (case (if node_type c2 \<noteq> ''Empty'' then map_option snd (visitNode c2 st7)
                 else Some st7) of
             None \<Rightarrow> None
           | Some st8 \<Rightarrow>
               Some (None, push (instr ''LABEL'' (Some forEndLabel) None None)
                             (push (instr ''JUMP'' (Some forStartLabel) None None) st8))))))))))
    else if t = ''ReturnStatement'' then
      (case child_count node of None \<Rightarrow> None | Some n \<Rightarrow>
       if n > 0 then
         (case child node 0 of None \<Rightarrow> None | Some c0 \<Rightarrow>
          (case visitNode c0 st of None \<Rightarrow> None
           | Some (returnValue, st1) \<Rightarrow>
               Some (None, push (instr ''RET'' None (Some (or_else returnValue [])) None) st1)))
       else Some (None, push (instr ''RET'' None None None) st))
    else if t = ''PrintStatement'' then
      (case child node 0 of None \<Rightarrow> None | Some c0 \<Rightarrow>
       (case visitNode c0 st of None \<Rightarrow> None
        | Some (printArg, st1) \<Rightarrow>
            Some (None, push (instr ''PRINT'' None (Some (or_else printArg [])) None) st1)))
    else if t = ''Assignment'' then
      (case child node 1 of None \<Rightarrow> None | Some c1 \<Rightarrow>
       (case visitNode c1 st of None \<Rightarrow> None
        | Some (rightValue, st1) \<Rightarrow>
       (case child node 0 of None \<Rightarrow> None | Some c0 \<Rightarrow>
        let leftName = or_else (node_value c0) [] in
        Some (Some leftName,
              push (instr ''ASSIGN'' (Some leftName) (Some (or_else rightValue [])) None) st1))))
    else if t = ''LogicalOr'' \<or> t = ''LogicalAnd'' then
      (let (temp, st1) = newTemp st;
           (rightLabel, st2) = newLabel st1;
           (endLabel, st3) = newLabel st2 in
       (case child node 0 of None \<Rightarrow> None | Some c0 \<Rightarrow>
        (case visitNode c0 st3 of None \<Rightarrow> None
         | Some (left, st4) \<Rightarrow>
        let st5 = push (instr (if t = ''LogicalOr'' then ''JUMPTRUE'' else ''JUMPFALSE'')
                          (Some endLabel) (Some temp) None)
                    (push (instr ''ASSIGN'' (Some temp) (Some (or_else left [])) None) st4) in
        (case child node 1 of None \<Rightarrow> None | Some c1 \<Rightarrow>
         (case visitNode c1 st5 of None \<Rightarrow> None
          | Some (right, st6) \<Rightarrow>
              Some (Some temp,
                    push (instr ''LABEL'' (Some endLabel) None None)
                      (push (instr ''ASSIGN'' (Some temp) (Some (or_else right [])) None)
                         st6)))))))
    else if binary_opcode t \<noteq> None then
      (case child node 0 of None \<Rightarrow> None | Some c0 \<Rightarrow>
       (case visitNode c0 st of None \<Rightarrow> None
        | Some (left, st1) \<Rightarrow>
       (case child node 1 of None \<Rightarrow> None | Some c1 \<Rightarrow>
        (case visitNode c1 st1 of None \<Rightarrow> None
         | Some (right, st2) \<Rightarrow>
        let (temp, st3) = newTemp st2 in
        Some (Some temp,
              push (instr (the (binary_opcode t)) (Some temp) (Some (or_else left []))
                      (Some (or_else right []))) st3)))))
    else if unary_opcode t \<noteq> None then
      (case child node 0 of None \<Rightarrow> None | Some c0 \<Rightarrow>
       (case visitNode c0 st of None \<Rightarrow> None
        | Some (expr, st1) \<Rightarrow>
        let (temp, st2) = newTemp st1 in
        Some (Some temp,
              push (instr (the (unary_opcode t)) (Some temp) (Some (or_else expr [])) None)
                st2)))
    else if t = ''FunctionCall'' then
      (case child node 0 of None \<Rightarrow> None | Some callee \<Rightarrow>
       let funcCallName = or_else (node_value callee) [] in
       (case for_each (\<lambda>c (args, s).
                 (case visitNode c s of None \<Rightarrow> None
                  | Some (argResult, s') \<Rightarrow>
                      Some (if truthy argResult then args @ [the argResult] else args, s')))
               (drop 1 (the (children node))) ([], st) of
          None \<Rightarrow> None
        | Some (args, st1) \<Rightarrow>
            let st2 = foldl (\<lambda>s a. push (instr ''PARAM'' None (Some a) None) s) st1 args;
                (callTemp, st3) = newTemp st2 in
            Some (Some callTemp,
                  push (instr ''CALL'' (Some callTemp) (Some funcCallName)
                          (Some (show_nat (length args)))) st3)))
    else if t = ''NumberLiteral'' then Some (Some (or_else (node_value node) ''0''), st)
    else if t = ''StringLiteral'' then Some (Some (or_else (node_value node) [DQUOTE, DQUOTE]), st)
    else if t = ''BooleanLiteral'' then Some (Some (or_else (node_value node) ''false''), st)
    else if t = ''Identifier'' then Some (Some (or_else (node_value node) []), st)
    else if t = ''Grouping'' then
      (case child node 0 of None \<Rightarrow> None | Some c0 \<Rightarrow> visitNode c0 st)
    else visitChildren)"
  by pat_completeness auto
termination
  by (relation "measure (\<lambda>(node, st). size node)")
     (auto dest: size_child size_children size_children_drop)

declare visitNode.simps [simp del]

definition generateIR :: "ASTNode \<Rightarrow> IRInstruction list option" where
  "generateIR ast =
     map_option (\<lambda>(r, st). instructions st)
       (visitNode ast \<lparr>instructions = [], tempCounter = 0, labelCounter = 0\<rparr>)"


section \<open>The optimizer (optimizer.ts)\<close>

subsection \<open>JavaScript numbers\<close>

text \<open>
  The optimizer reads operands with \<open>Number.parseFloat\<close>, computes on IEEE 754
  doubles and prints results with \<open>Number.prototype.toString\<close>. These primitives
  of the language are a parameter of the model: a record of operations on a type
  \<open>'n\<close> of numbers. What is proved for every such record holds for the doubles
  of JavaScript in particular.
\<close>

record 'n js_numbers =
  parseFloat :: "string \<Rightarrow> 'n"
  isNaN :: "'n \<Rightarrow> bool"
  isFinite :: "'n \<Rightarrow> bool"
  num_zero :: 'n
  num_add :: "'n \<Rightarrow> 'n \<Rightarrow> 'n"
  num_sub :: "'n \<Rightarrow> 'n \<Rightarrow> 'n"
  num_mul :: "'n \<Rightarrow> 'n \<Rightarrow> 'n"
  num_div :: "'n \<Rightarrow> 'n \<Rightarrow> 'n"
  num_mod :: "'n \<Rightarrow> 'n \<Rightarrow> 'n"
  num_eq :: "'n \<Rightarrow> 'n \<Rightarrow> bool"
  num_lt :: "'n \<Rightarrow> 'n \<Rightarrow> bool"
  num_le :: "'n \<Rightarrow> 'n \<Rightarrow> bool"
  num_toString :: "'n \<Rightarrow> string"

definition isNumeric :: "'n js_numbers \<Rightarrow> string \<Rightarrow> bool" where
  "isNumeric J str = (\<not> isNaN J (parseFloat J str) \<and> isFinite J (parseFloat J str))"

text \<open>
  For the concrete runs below, the fragment of the doubles that decimal integers
  make: \<open>parseFloat\<close> reads an optional sign and the longest run of digits, the
  operations are those of the integers, and \<open>toString\<close> prints decimal digits.
  This agrees with JavaScript where the operand strings are optionally signed digit
  runs (not continued by a fraction or an exponent) and every value stays below
  \<open>2^53\<close> in magnitude. A quotient that is not an integer is outside the
  fragment (\<open>Unmodelled\<close>).
\<close>

datatype js_integer = NaN | Num int | Unmodelled

definition digit_value :: "char \<Rightarrow> int" where
  "digit_value c = int (length (takeWhile (\<lambda>d. d \<noteq> c) ''0123456789''))"

definition digits_value :: "string \<Rightarrow> int" where
  "digits_value ds = foldl (\<lambda>acc c. 10 * acc + digit_value c) 0 ds"

definition parse_integer :: "string \<Rightarrow> js_integer" where
  "parse_integer s =
     (let (sign, r) = (case s of
                         c # r \<Rightarrow> if c = CHR ''-'' then (- 1, r)
                                  else if c = CHR ''+'' then (1, r) else (1, s)
                       | [] \<Rightarrow> (1, s));
          ds = takeWhile isDigit r in
      if ds = [] then NaN else Num (sign * digits_value ds))"

definition show_int :: "js_integer \<Rightarrow> string" where
  "show_int n =
     (case n of
        Num i \<Rightarrow> (if i < 0 then ''-'' @ show_nat (nat (- i)) else show_nat (nat i))
      | NaN \<Rightarrow> ''NaN''
      | Unmodelled \<Rightarrow> ''?'')"

fun int_op :: "(int \<Rightarrow> int \<Rightarrow> js_integer) \<Rightarrow> js_integer \<Rightarrow> js_integer \<Rightarrow> js_integer" where
  "int_op f (Num a) (Num b) = f a b"
| "int_op f NaN _ = NaN"
| "int_op f _ NaN = NaN"
| "int_op f _ _ = Unmodelled"

fun int_rel :: "(int \<Rightarrow> int \<Rightarrow> bool) \<Rightarrow> js_integer \<Rightarrow> js_integer \<Rightarrow> bool" where
  "int_rel f (Num a) (Num b) = f a b"
| "int_rel f _ _ = False"

definition js_integers :: "js_integer js_numbers" where
  "js_integers =
     \<lparr>parseFloat = parse_integer,
      isNaN = (\<lambda>n. n = NaN),
      isFinite = (\<lambda>n. n \<noteq> NaN),
      num_zero = Num 0,
      num_add = int_op (\<lambda>a b. Num (a + b)),
      num_sub = int_op (\<lambda>a b. Num (a - b)),
      num_mul = int_op (\<lambda>a b. Num (a * b)),
      num_div = int_op (\<lambda>a b. if b \<noteq> 0 \<and> b dvd a then Num (a div b) else Unmodelled),
      num_mod = int_op (\<lambda>a b. if b = 0 then NaN else Num (sgn a * (\<bar>a\<bar> mod \<bar>b\<bar>))),
      num_eq = int_rel (=),
      num_lt = int_rel (<),
      num_le = int_rel (\<le>),
      num_toString = show_int\<rparr>"

subsection \<open>Constant folding\<close>

definition ARITHMETIC_OPS :: "string list" where
  "ARITHMETIC_OPS = [''ADD'', ''SUB'', ''MUL'', ''DIV'', ''MOD'']"

definition COMPARISON_OPS :: "string list" where
  "COMPARISON_OPS = [''EQ'', ''NE'', ''LT'', ''GT'', ''LE'', ''GE'']"

text \<open>
  The two \<open>switch\<close> statements; \<open>None\<close> is their \<open>continue\<close>, which leaves
  the instruction as it is.
\<close>

definition arithmetic_result :: "'n js_numbers \<Rightarrow> string \<Rightarrow> 'n \<Rightarrow> 'n \<Rightarrow> 'n option" where
  "arithmetic_result J o' num1 num2 =
     (if o' = ''ADD'' then Some (num_add J num1 num2)
      else if o' = ''SUB'' then Some (num_sub J num1 num2)
      else if o' = ''MUL'' then Some (num_mul J num1 num2)
      else if o' = ''DIV'' then
        (if num_eq J num2 (num_zero J) then None else Some (num_div J num1 num2))
      else if o' = ''MOD'' then
        (if num_eq J num2 (num_zero J) then None else Some (num_mod J num1 num2))
      else None)"

definition comparison_result :: "'n js_numbers \<Rightarrow> string \<Rightarrow> 'n \<Rightarrow> 'n \<Rightarrow> bool option" where
  "comparison_result J o' num1 num2 =
     (if o' = ''EQ'' then Some (num_eq J num1 num2)
      else if o' = ''NE'' then Some (\<not> num_eq J num1 num2)
      else if o' = ''LT'' then Some (num_lt J num1 num2)
      else if o' = ''GT'' then Some (num_lt J num2 num1)
      else if o' = ''LE'' then Some (num_le J num1 num2)
      else if o' = ''GE'' then Some (num_le J num2 num1)
      else None)"

text \<open>
  The body of the loop of \<open>constantFolding\<close> for one instruction. Both \<open>if\<close>
  statements test the opcode the instruction had on entry, and no opcode is in both
  lists, so the second one is the \<open>else\<close> branch of the first.
\<close>

definition fold_instruction :: "'n js_numbers \<Rightarrow> IRInstruction \<Rightarrow> IRInstruction" where
  "fold_instruction J i =
     (let a1 = or_else (arg1 i) []; a2 = or_else (arg2 i) [] in
      if op i \<in> set ARITHMETIC_OPS then
        (if isNumeric J a1 \<and> isNumeric J a2 then
           (case arithmetic_result J (op i) (parseFloat J a1) (parseFloat J a2) of
              None \<Rightarrow> i
            | Some r \<Rightarrow> instr ''ASSIGN'' (result i) (Some (num_toString J r)) None)
         else i)
      else if op i \<in> set COMPARISON_OPS then
        (if isNumeric J a1 \<and> isNumeric J a2 then
           (case comparison_result J (op i) (parseFloat J a1) (parseFloat J a2) of
              None \<Rightarrow> i
            | Some b \<Rightarrow>
                instr ''ASSIGN'' (result i) (Some (if b then ''true'' else ''false'')) None)
         else i)
      else i)"

definition constantFolding :: "'n js_numbers \<Rightarrow> IRInstruction list \<Rightarrow> IRInstruction list" where
  "constantFolding J ir = map (fold_instruction J) ir"

subsection \<open>Constant propagation\<close>

text \<open>
  \<open>constants\<close> is a \<open>Record<string, string>\<close> that starts empty; it is
  modelled as a map, which leaves out the properties a JavaScript object inherits
  from \<open>Object.prototype\<close> (an operand named \<open>constructor\<close>, say).
  The same holds for the record \<open>used\<close> of dead-code elimination.
  \<open>track\<close> is the body of the first loop.
\<close>

definition track ::
  "'n js_numbers \<Rightarrow> (string \<rightharpoonup> string) \<Rightarrow> IRInstruction \<Rightarrow> (string \<rightharpoonup> string)" where
  "track J constants i =
     (case (result i, arg1 i) of
        (Some r, Some a) \<Rightarrow>
          (if op i = ''ASSIGN'' \<and> r \<noteq> [] \<and> a \<noteq> [] \<and> isNumeric J a then constants(r \<mapsto> a)
           else if op i = ''ASSIGN'' \<and> r \<noteq> [] \<and> a \<noteq> [] \<and> truthy (constants a)
             then constants(r := constants a)
           else if r \<noteq> [] then constants(r := None)
           else constants)
      | (Some r, None) \<Rightarrow> (if r \<noteq> [] then constants(r := None) else constants)
      | (None, _) \<Rightarrow> constants)"

text \<open>The replacement of one operand in the second loop.\<close>

definition substitute :: "(string \<rightharpoonup> string) \<Rightarrow> string option \<Rightarrow> string option" where
  "substitute constants a =
     (case a of
        None \<Rightarrow> None
      | Some x \<Rightarrow> if x \<noteq> [] \<and> truthy (constants x) then constants x else Some x)"

definition substitute_args :: "(string \<rightharpoonup> string) \<Rightarrow> IRInstruction \<Rightarrow> IRInstruction" where
  "substitute_args constants i =
     i\<lparr>arg1 := substitute constants (arg1 i), arg2 := substitute constants (arg2 i)\<rparr>"

definition constantPropagation :: "'n js_numbers \<Rightarrow> IRInstruction list \<Rightarrow> IRInstruction list" where
  "constantPropagation J ir =
     (let constants = foldl (track J) Map.empty ir in
      map (substitute_args constants) ir)"

subsection \<open>Dead-code elimination\<close>

text \<open>The names that the first loop marks in \<open>used\<close>.\<close>

definition marks :: "'n js_numbers \<Rightarrow> string option \<Rightarrow> string list" where
  "marks J a =
     (case a of
        None \<Rightarrow> []
      | Some x \<Rightarrow> if x \<noteq> [] \<and> \<not> isNumeric J x \<and> \<not> prefix ''L'' x then [x] else [])"

definition used_names :: "'n js_numbers \<Rightarrow> IRInstruction list \<Rightarrow> string list" where
  "used_names J ir = concat (map (\<lambda>i. marks J (arg1 i) @ marks J (arg2 i)) ir)"

definition NOP :: IRInstruction where
  "NOP = instr ''NOP'' None None None"

definition eliminate :: "string list \<Rightarrow> IRInstruction \<Rightarrow> IRInstruction" where
  "eliminate used i =
     (if op i = ''ASSIGN'' \<and> truthy (result i) \<and> the (result i) \<notin> set used then NOP else i)"

definition deadCodeElimination :: "'n js_numbers \<Rightarrow> IRInstruction list \<Rightarrow> IRInstruction list" where
  "deadCodeElimination J ir =
     filter (\<lambda>i. op i \<noteq> ''NOP'') (map (eliminate (used_names J ir)) ir)"

text \<open>
  \<open>optimizeIR\<close> works on a copy made by \<open>JSON.parse(JSON.stringify(ir))\<close>,
  which is the same list of instructions.
\<close>

definition optimizeIR :: "'n js_numbers \<Rightarrow> IRInstruction list \<Rightarrow> IRInstruction list" where
  "optimizeIR J ir = deadCodeElimination J (constantPropagation J (constantFolding J ir))"

subsection \<open>The single scan of the specification\<close>

text \<open>
  For comparison with \<open>constantPropagation\<close>, constant propagation as the
  specification words it: one forward scan that keeps the map of constants and
  substitutes, in each instruction, the operands tracked by the map as it stands at
  that instruction. The map is updated by the same rules (\<open>track\<close>).
\<close>

fun single_scan_propagation ::
  "'n js_numbers \<Rightarrow> (string \<rightharpoonup> string) \<Rightarrow> IRInstruction list \<Rightarrow> IRInstruction list" where
  "single_scan_propagation J constants [] = []"
| "single_scan_propagation J constants (i # ir) =
     substitute_args constants i # single_scan_propagation J (track J constants i) ir"

text \<open>The names an instruction reads, and the name it writes.\<close>

definition reads :: "IRInstruction \<Rightarrow> string list" where
  "reads i =
     (case arg1 i of None \<Rightarrow> [] | Some x \<Rightarrow> [x]) @ (case arg2 i of None \<Rightarrow> [] | Some x \<Rightarrow> [x])"

definition writes :: "IRInstruction \<Rightarrow> string list" where
  "writes i = (case result i of None \<Rightarrow> [] | Some r \<Rightarrow> if r \<noteq> [] then [r] else [])"

text \<open>No instruction writes a name that it or an earlier instruction reads.\<close>

fun no_write_after_read :: "IRInstruction list \<Rightarrow> bool" where
  "no_write_after_read [] = True"
| "no_write_after_read (i # ir) =
     (list_all (\<lambda>x. x \<notin> set (concat (map writes (i # ir)))) (reads i) \<and>
      no_write_after_read ir)"


subsection \<open>Instruction lists on which no pass has work left\<close>






subsection \<open>Example programs\<close>

text \<open>
  The parser is not among the sources; the trees below follow the positional layout
  of the children that the analyzer and the IR generator read. A leaf carries its
  lexeme, an inner node its children.
\<close>

definition leaf :: "string \<Rightarrow> string \<Rightarrow> ASTNode" where
  "leaf t v = ASTNode t (Some v) None None None"

definition inner :: "string \<Rightarrow> ASTNode list \<Rightarrow> ASTNode" where
  "inner t cs = ASTNode t None None None (Some cs)"

text \<open>\<open>int main() { int a = 2 + 3 * 4; return a; }\<close>\<close>

definition constant_folding_program :: ASTNode where
  "constant_folding_program =
     inner ''Program''
       [inner ''FunctionDeclaration''
          [leaf ''Type'' ''int'', leaf ''Identifier'' ''main'', inner ''Parameters'' [],
           inner ''Block''
             [inner ''VariableDeclaration''
                [leaf ''Type'' ''int'', leaf ''Identifier'' ''a'',
                 inner ''Addition''
                   [leaf ''NumberLiteral'' ''2'',
                    inner ''Multiplication''
                      [leaf ''NumberLiteral'' ''3'', leaf ''NumberLiteral'' ''4'']]],
              inner ''ReturnStatement'' [leaf ''Identifier'' ''a'']]]]"



text \<open>\<open>int main() { int i = 0; while (i < 3) { i = i + 1; } return i; }\<close>\<close>

definition while_program :: ASTNode where
  "while_program =
     inner ''Program''
       [inner ''FunctionDeclaration''
          [leaf ''Type'' ''int'', leaf ''Identifier'' ''main'', inner ''Parameters'' [],
           inner ''Block''
             [inner ''VariableDeclaration''
                [leaf ''Type'' ''int'', leaf ''Identifier'' ''i'', leaf ''NumberLiteral'' ''0''],
              inner ''WhileStatement''
                [inner ''LessThan'' [leaf ''Identifier'' ''i'', leaf ''NumberLiteral'' ''3''],
                 inner ''Block''
                   [inner ''Assignment''
                      [leaf ''Identifier'' ''i'',
                       inner ''Addition'' [leaf ''Identifier'' ''i'', leaf ''NumberLiteral'' ''1'']]]],
              inner ''ReturnStatement'' [leaf ''Identifier'' ''i'']]]]"

text \<open>\<open>int main() { { } }\<close>: a block in the block of the function body.\<close>

definition nested_blocks_program :: ASTNode where
  "nested_blocks_program =
     inner ''Program''
       [inner ''FunctionDeclaration''
          [leaf ''Type'' ''int'', leaf ''Identifier'' ''main'', inner ''Parameters'' [],
           inner ''Block'' [inner ''Block'' []]]]"

text \<open>
  A tree that the grammar of the language does not derive: the body of a function
  \<open>f\<close> holds the declaration of another function \<open>f\<close>.
\<close>

definition nested_namesake_program :: ASTNode where
  "nested_namesake_program =
     inner ''Program''
       [inner ''FunctionDeclaration''
          [leaf ''Type'' ''int'', leaf ''Identifier'' ''f'', inner ''Parameters'' [],
           inner ''Block''
             [inner ''FunctionDeclaration''
                [leaf ''Type'' ''int'', leaf ''Identifier'' ''f'', inner ''Parameters'' [],
                 inner ''Block'' []]]]]"

text \<open>\<open>int L0() { if (true) { } return 0; }\<close>\<close>

definition label_named_function_program :: ASTNode where
  "label_named_function_program =
     inner ''Program''
       [inner ''FunctionDeclaration''
          [leaf ''Type'' ''int'', leaf ''Identifier'' ''L0'', inner ''Parameters'' [],
           inner ''Block''
             [inner ''IfStatement'' [leaf ''BooleanLiteral'' ''true'', inner ''Block'' []],
              inner ''ReturnStatement'' [leaf ''NumberLiteral'' ''0'']]]]"

text \<open>Draws of \<open>Math.random\<close>, as \<open>toString(36).substr(2, 9)\<close> prints them.\<close>

definition example_draws :: "nat \<Rightarrow> string" where
  "example_draws k = (if k = 0 then ''k3j9x2m1q'' else if k = 1 then ''7zq0p4w8e'' else ''0'')"


definition repeated_draws :: "nat \<Rightarrow> string" where
  "repeated_draws k = ''k3j9x2m1q''"





text \<open>The raw IR of \<open>int main() { int a = 2 + 3 * 4; return a; }\<close>.\<close>

definition constant_folding_ir :: "IRInstruction list" where
  "constant_folding_ir =
     [instr ''LABEL'' (Some ''main'') None None,
      instr ''ENTER'' None None None,
      instr ''MUL'' (Some ''t0'') (Some ''3'') (Some ''4''),
      instr ''ADD'' (Some ''t1'') (Some ''2'') (Some ''t0''),
      instr ''ASSIGN'' (Some ''a'') (Some ''t1'') None,
      instr ''RET'' None (Some ''a'') None,
      instr ''LEAVE'' None None None,
      instr ''RET'' None None None]"


text \<open>\<open>int main() { int x = 1; print(x); x = 2; return x; }\<close> and its raw IR.\<close>

definition reassigned_program :: ASTNode where
  "reassigned_program =
     inner ''Program''
       [inner ''FunctionDeclaration''
          [leaf ''Type'' ''int'', leaf ''Identifier'' ''main'', inner ''Parameters'' [],
           inner ''Block''
             [inner ''VariableDeclaration''
                [leaf ''Type'' ''int'', leaf ''Identifier'' ''x'', leaf ''NumberLiteral'' ''1''],
              inner ''PrintStatement'' [leaf ''Identifier'' ''x''],
              inner ''Assignment'' [leaf ''Identifier'' ''x'', leaf ''NumberLiteral'' ''2''],
              inner ''ReturnStatement'' [leaf ''Identifier'' ''x'']]]]"

definition reassigned_ir :: "IRInstruction list" where
  "reassigned_ir =
     [instr ''LABEL'' (Some ''main'') None None,
      instr ''ENTER'' None None None,
      instr ''ASSIGN'' (Some ''x'') (Some ''1'') None,
      instr ''PRINT'' None (Some ''x'') None,
      instr ''ASSIGN'' (Some ''x'') (Some ''2'') None,
      instr ''RET'' None (Some ''x'') None,
      instr ''LEAVE'' None None None,
      instr ''RET'' None None None]"

section \<open>Properties of the lexer\<close>

lemma tokenize_loop_funpow:
  "\<exists>n. n \<le> length input - pos s \<and> \<not> pos ((scan_step input ^^ n) s) < length input \<and>
       tokenize_loop input s = (scan_step input ^^ n) s"
proof (induction input s rule: tokenize_loop.induct)
  case (1 input s)
  show ?case
  proof (cases "pos s < length input")
    case True
    from 1 [OF True] obtain n where n:
      "n \<le> length input - pos (scan_step input s)"
      "\<not> pos ((scan_step input ^^ n) (scan_step input s)) < length input"
      "tokenize_loop input (scan_step input s) = (scan_step input ^^ n) (scan_step input s)"
      by blast
    have "Suc n \<le> length input - pos s"
      using n(1) True scan_step_pos [of s input] by simp
    moreover have "(scan_step input ^^ Suc n) s = (scan_step input ^^ n) (scan_step input s)"
      by (simp add: funpow_swap1)
    moreover have "tokenize_loop input s = tokenize_loop input (scan_step input s)"
      using True by (simp add: tokenize_loop.simps [of input s])
    ultimately show ?thesis
      using n(2,3) by metis
  next
    case False
    then have "tokenize_loop input s = (scan_step input ^^ 0) s"
      by (simp add: tokenize_loop.simps [of input s])
    with False show ?thesis
      by (intro exI [of _ 0]) simp
  qed
qed

text \<open>
  Claim C10: \<open>tokenize\<close> terminates on every input. Each iteration of the scanning
  loop moves \<open>pos\<close> forward by at least one code unit, whichever pattern matches
  and also when none does, and the loop leaves after at most \<open>input.length\<close>
  iterations with the tokens and errors that \<open>tokenize\<close> returns.
\<close>

theorem tokenize_terminates:
  "pos (s::lexer_state) < pos (scan_step input s) \<and>
   (\<exists>n. n \<le> length input \<and>
        \<not> pos ((scan_step input ^^ n) initial_state) < length input \<and>
        tokenize input = (tokens ((scan_step input ^^ n) initial_state),
                          errors ((scan_step input ^^ n) initial_state)))"
proof
  show "pos s < pos (scan_step input s)"
    by (rule scan_step_pos)
next
  from tokenize_loop_funpow [of input initial_state] obtain n where
    "n \<le> length input - pos initial_state"
    "\<not> pos ((scan_step input ^^ n) initial_state) < length input"
    "tokenize_loop input initial_state = (scan_step input ^^ n) initial_state"
    by blast
  then show "\<exists>n. n \<le> length input \<and>
        \<not> pos ((scan_step input ^^ n) initial_state) < length input \<and>
        tokenize input = (tokens ((scan_step input ^^ n) initial_state),
                          errors ((scan_step input ^^ n) initial_state))"
    by (intro exI [of _ n]) (simp add: tokenize_def Let_def)
qed

text \<open>
  Claim C7, as amended: for the input \<open>int main() { return 0; }\<close> the lexer
  reports no lexical error and produces exactly 9 tokens: \<open>int\<close>, \<open>main\<close>,
  \<open>(\<close>, \<open>)\<close>, \<open>{\<close>, \<open>return\<close>, \<open>0\<close>, \<open>;\<close> and \<open>}\<close>.
\<close>

theorem tokenize_minimal_program:
  "snd (tokenize ''int main() { return 0; }'') = [] \<and>
   length (fst (tokenize ''int main() { return 0; }'')) = 9 \<and>
   map tok_value (fst (tokenize ''int main() { return 0; }'')) =
     [''int'', ''main'', ''('', '')'', ''{'', ''return'', ''0'', '';'', ''}'']"
  by code_simp

text \<open>
  Claim C7 as stated fails: the token count for \<open>int main() { return 0; }\<close> is
  not 8.
\<close>

theorem tokenize_minimal_program_not_8_tokens:
  "length (fst (tokenize ''int main() { return 0; }'')) \<noteq> 8"
  by code_simp

text \<open>
  Claim C2 at the input \<open>a == b\<close>: the alternation of \<open>PATTERNS.OPERATOR\<close>
  lists \<open>=\<close> before \<open>==\<close>, so the operator \<open>==\<close> is emitted as two
  \<open>=\<close> tokens. The same holds for \<open><=\<close> and \<open>>=\<close>, listed after
  \<open><\<close> and \<open>>\<close>; \<open>!=\<close>, \<open>&&\<close> and \<open>||\<close> are emitted whole.
\<close>

theorem tokenize_splits_double_equals:
  "fst (tokenize ''a == b'') =
     [\<lparr>tok_type = IDENTIFIER, tok_value = ''a'', tok_line = 1, tok_column = 1\<rparr>,
      \<lparr>tok_type = OPERATOR, tok_value = ''='', tok_line = 1, tok_column = 3\<rparr>,
      \<lparr>tok_type = OPERATOR, tok_value = ''='', tok_line = 1, tok_column = 4\<rparr>,
      \<lparr>tok_type = IDENTIFIER, tok_value = ''b'', tok_line = 1, tok_column = 6\<rparr>] \<and>
   map tok_value (fst (tokenize ''a <= b'')) = [''a'', ''<'', ''='', ''b''] \<and>
   map tok_value (fst (tokenize ''a >= b'')) = [''a'', ''>'', ''='', ''b''] \<and>
   map tok_value (fst (tokenize ''a != b && c || d'')) =
     [''a'', ''!='', ''b'', ''&&'', ''c'', ''||'', ''d'']"
  by code_simp

text \<open>
  Claim C3 at the input \<open>// c\<close>, line feed, \<open>x\<close>: \<open>PATTERNS.COMMENT_SINGLE\<close>
  ends in \<open>$\<close> without the \<open>m\<close> flag, so a line comment that is followed by
  a line terminator is not matched; its two slashes become \<open>/\<close> operator tokens
  and its text is tokenized.
\<close>

theorem tokenize_line_comment_before_newline:
  "fst (tokenize ''// c\<newline>x'') =
     [\<lparr>tok_type = OPERATOR, tok_value = ''/'', tok_line = 1, tok_column = 1\<rparr>,
      \<lparr>tok_type = OPERATOR, tok_value = ''/'', tok_line = 1, tok_column = 2\<rparr>,
      \<lparr>tok_type = IDENTIFIER, tok_value = ''c'', tok_line = 1, tok_column = 4\<rparr>,
      \<lparr>tok_type = IDENTIFIER, tok_value = ''x'', tok_line = 2, tok_column = 1\<rparr>]"
  by code_simp

section \<open>Properties of the semantic analyzer\<close>

subsection \<open>What the helpers leave unchanged\<close>

lemma same_shape_refl: "same_shape st st"
  by (simp add: same_shape_def)

lemma same_shape_trans: "same_shape a b \<Longrightarrow> same_shape b c \<Longrightarrow> same_shape a c"
  by (simp add: same_shape_def)

lemma same_shape_errors: "same_shape st (st\<lparr>sem_errors := es\<rparr>)"
  by (simp add: same_shape_def current_def parent_of_def lookup_scope_def fun_eq_iff)

lemma same_shape_add_error: "same_shape st (add_error e st)"
  by (simp add: add_error_def same_shape_errors)

lemma same_shape_set_scope:
  "lookup_scope st n = Some sc \<Longrightarrow> parent sc' = parent sc \<Longrightarrow> same_shape st (set_scope n sc' st)"
  by (auto simp: same_shape_def current_def parent_of_def lookup_scope_def set_scope_def
      fun_eq_iff update_conv')

lemma same_shape_mark_initialized: "same_shape st (mark_initialized scopeName name st)"
  by (auto simp: mark_initialized_def same_shape_refl split: option.splits
      intro!: same_shape_set_scope)

lemma same_shape_mark_errors:
  "same_shape st (mark_initialized scopeName name (st\<lparr>sem_errors := es\<rparr>))"
  by (rule same_shape_trans [OF same_shape_errors same_shape_mark_initialized])

lemma same_shape_declareSymbol:
  "declareSymbol name ty kind node params returnType st = Some st' \<Longrightarrow> same_shape st st'"
  by (auto simp: declareSymbol_def same_shape_add_error split: option.splits
      intro!: same_shape_set_scope)

lemma same_shape_check_main: "check_main st = Some st' \<Longrightarrow> same_shape st st'"
  by (auto simp: check_main_def same_shape_add_error same_shape_refl split: option.splits)

lemma same_shape_check_condition: "check_condition node st = Some st' \<Longrightarrow> same_shape st st'"
  by (auto simp: check_condition_def same_shape_errors split: option.splits)

lemma same_shape_check_return: "check_return node st = Some st' \<Longrightarrow> same_shape st st'"
  by (auto simp: check_return_def Let_def same_shape_errors same_shape_add_error same_shape_refl
      split: option.splits if_splits)

lemma same_shape_check_assignment: "check_assignment node st = Some st' \<Longrightarrow> same_shape st st'"
  by (auto simp: check_assignment_def Let_def same_shape_errors same_shape_add_error
      same_shape_mark_errors split: option.splits if_splits)

lemma same_shape_before_children: "before_children node st = Some st' \<Longrightarrow> same_shape st st'"
  by (auto simp: before_children_def Let_def same_shape_refl split: if_splits
      dest: same_shape_check_condition same_shape_check_return same_shape_check_assignment)

lemma same_shape_visit_VariableDeclaration:
  "visit_VariableDeclaration node st = Some st' \<Longrightarrow> same_shape st st'"
  by (auto simp: visit_VariableDeclaration_def Let_def split: option.splits if_splits
      dest!: same_shape_declareSymbol
      intro: same_shape_trans [OF _ same_shape_mark_errors])

lemma same_shape_for_each:
  "(\<And>x s s'. f x s = Some s' \<Longrightarrow> same_shape s s') \<Longrightarrow> for_each f xs st = Some st' \<Longrightarrow>
   same_shape st st'"
proof (induction xs arbitrary: st)
  case Nil
  then show ?case by (simp add: same_shape_refl)
next
  case (Cons x xs)
  from Cons.prems(2) obtain s1 where s1: "f x st = Some s1" "for_each f xs s1 = Some st'"
    by (auto split: option.splits)
  from Cons.prems(1) [OF s1(1)] Cons.IH [OF Cons.prems(1) s1(2)]
  show ?case
    by (rule same_shape_trans)
qed

text \<open>Entering and leaving a scope.\<close>

lemma enterScope_shape:
  "current (enterScope n st) = n \<and> draws (enterScope n st) = draws st \<and>
   parent_of (enterScope n st) = (parent_of st)(n \<mapsto> Some (current st))"
  by (auto simp: enterScope_def set_current_def set_scope_def current_def parent_of_def
      lookup_scope_def fun_eq_iff update_conv')

lemma exitScope_shape:
  "exitScope st = Some st' \<Longrightarrow> parent_of st (current st) = Some p \<Longrightarrow>
   current st' = or_else p ''global'' \<and> draws st' = draws st \<and> parent_of st' = parent_of st"
  by (auto simp: exitScope_def set_current_def current_def parent_of_def lookup_scope_def
      fun_eq_iff split: option.splits)

lemma enter_function_shape:
  assumes "enter_function node st = Some st'"
  shows "current st' = ''function_'' @ function_name node \<and> draws st' = draws st \<and>
         parent_of st' = (parent_of st)(''function_'' @ function_name node \<mapsto> Some (current st))"
proof -
  from assms obtain st1 params where
    d: "declareSymbol (function_name node) ''function'' Function
          (the (child node 1)) (Some (map fst params))
          (Some (or_else (node_value (the (child node 0))) ''void'')) st = Some st1"
    and f: "for_each (\<lambda>((paramName, paramType), nameNode).
                declareSymbol paramName paramType Parameter nameNode None None)
              params (enterScope (''function_'' @ function_name node) st1) = Some st'"
    by (auto simp: enter_function_def Let_def split: option.splits)
  have 1: "same_shape st st1"
    using d by (rule same_shape_declareSymbol)
  have 2: "same_shape (enterScope (''function_'' @ function_name node) st1) st'"
    using f by (rule same_shape_for_each [rotated]) (auto dest: same_shape_declareSymbol)
  show ?thesis
    using 1 2 enterScope_shape [of "''function_'' @ function_name node" st1]
    by (simp add: same_shape_def)
qed

subsection \<open>The walk, case by case\<close>

lemma visitNode_sem_unfold:
  "visitNode_sem random node st =
   (if node_type node = ''FunctionDeclaration'' then
      (case enter_function node st of None \<Rightarrow> None | Some st1 \<Rightarrow>
       (case (if the (child_count node) > 3
              then (case child node 3 of None \<Rightarrow> None
                    | Some body \<Rightarrow> visitNode_sem random body st1)
              else Some st1) of
          None \<Rightarrow> None
        | Some st2 \<Rightarrow> exitScope st2))
    else if node_type node = ''VariableDeclaration'' then visit_VariableDeclaration node st
    else if node_type node = ''Block'' then
      (case visitChildren_sem random node
              (enterScope (''block_'' @ random (draws st)) (st\<lparr>draws := draws st + 1\<rparr>)) of
          None \<Rightarrow> None
        | Some st1 \<Rightarrow> exitScope st1)
    else
      (case before_children node st of None \<Rightarrow> None | Some st1 \<Rightarrow>
       (case visitChildren_sem random node st1 of None \<Rightarrow> None | Some st2 \<Rightarrow>
        if node_type node = ''Program'' then check_main st2 else Some st2)))"
  unfolding visitChildren_sem_def
  by (subst visitNode_sem.simps) (simp only: Let_def)

lemma block_count_member: "c \<in> set cs \<Longrightarrow> block_count c \<le> sum_list (map block_count cs)"
  using member_le_sum_list [of "block_count c" "map block_count cs"] by simp

lemma block_count_child: "child node i = Some c \<Longrightarrow> block_count c \<le> block_count node"
  using block_count_member [of c]
  by (cases node) (auto simp: child_def le_SucI split: option.splits if_splits)

lemma block_count_children:
  "children node = Some cs \<Longrightarrow>
   block_count node = (if node_type node = ''Block'' then 1 else 0) + sum_list (map block_count cs)"
  by (cases node) auto

lemma for_each_draws:
  assumes "for_each f cs st = Some st'"
    and "\<And>x s s'. x \<in> set cs \<Longrightarrow> f x s = Some s' \<Longrightarrow>
           draws s \<le> draws s' \<and> draws s' \<le> draws s + block_count x"
  shows "draws st \<le> draws st' \<and> draws st' \<le> draws st + sum_list (map block_count cs)"
  using assms
proof (induction cs arbitrary: st)
  case Nil
  then show ?case by simp
next
  case (Cons x xs)
  from Cons.prems(1) obtain s1 where s1: "f x st = Some s1" "for_each f xs s1 = Some st'"
    by (auto split: option.splits)
  have a: "draws st \<le> draws s1 \<and> draws s1 \<le> draws st + block_count x"
    using Cons.prems(2) [OF _ s1(1)] by simp
  have "draws s \<le> draws s' \<and> draws s' \<le> draws s + block_count y"
    if "y \<in> set xs" "f y s = Some s'" for y s s'
    using Cons.prems(2) [of y s s'] that by simp
  then have b: "draws s1 \<le> draws st' \<and> draws st' \<le> draws s1 + sum_list (map block_count xs)"
    by (rule Cons.IH [OF s1(2)])
  from a b show ?case by simp
qed

lemma visitNode_sem_draws:
  "visitNode_sem random node st = Some st' \<Longrightarrow>
   draws st \<le> draws st' \<and> draws st' \<le> draws st + block_count node"
proof (induction node arbitrary: st st' rule: measure_induct_rule [where f = size])
  case (less node)
  have kids: "draws s \<le> draws s' \<and> draws s' \<le> draws s + sum_list (map block_count cs)"
    if "children node = Some cs" "for_each (visitNode_sem random) cs s = Some s'" for cs s s'
    using that(2)
  proof (rule for_each_draws)
    fix x s s'
    assume "x \<in> set cs" "visitNode_sem random x s = Some s'"
    with less.IH [of x s s'] size_children [OF that(1)]
    show "draws s \<le> draws s' \<and> draws s' \<le> draws s + block_count x"
      by simp
  qed
  have vc: "draws s \<le> draws s' \<and>
      draws s' + (if node_type node = ''Block'' then 1 else 0) \<le> draws s + block_count node"
    if "visitChildren_sem random node s = Some s'" for s s'
    using that kids block_count_children [of node]
    by (cases node) (auto simp: visitChildren_sem_def split: option.splits)
  have ex: "draws b = draws a" if "exitScope a = Some b" for a b
    using that by (auto simp: exitScope_def set_current_def split: option.splits)
  consider (f) "node_type node = ''FunctionDeclaration''"
    | (v) "node_type node = ''VariableDeclaration''"
    | (b) "node_type node = ''Block''"
    | (o) "node_type node \<noteq> ''FunctionDeclaration''" "node_type node \<noteq> ''VariableDeclaration''"
          "node_type node \<noteq> ''Block''"
    by blast
  then show ?case
  proof cases
    case f
    with less.prems obtain s1 s2 where
      s: "enter_function node st = Some s1" "exitScope s2 = Some st'"
      and body: "s2 = s1 \<or> (\<exists>body. child node 3 = Some body \<and>
                   visitNode_sem random body s1 = Some s2)"
      by (auto simp: visitNode_sem_unfold [of random node st] split: option.splits if_splits)
    have "draws s1 \<le> draws s2 \<and> draws s2 \<le> draws s1 + block_count node"
    proof (cases "s2 = s1")
      case True
      then show ?thesis by simp
    next
      case False
      with body obtain body' where
        b: "child node 3 = Some body'" "visitNode_sem random body' s1 = Some s2"
        by blast
      from less.IH [OF size_child [OF b(1)] b(2)] block_count_child [OF b(1)]
      show ?thesis by simp
    qed
    then show ?thesis
      using enter_function_shape [OF s(1)] ex [OF s(2)] by simp
  next
    case v
    with less.prems have "same_shape st st'"
      by (auto simp: visitNode_sem_unfold [of random node st]
          dest: same_shape_visit_VariableDeclaration)
    then show ?thesis by (simp add: same_shape_def)
  next
    case b
    with less.prems obtain s2 where
      s: "visitChildren_sem random node
            (enterScope (''block_'' @ random (draws st)) (st\<lparr>draws := draws st + 1\<rparr>)) = Some s2"
         "exitScope s2 = Some st'"
      by (auto simp: visitNode_sem_unfold [of random node st] split: option.splits)
    show ?thesis
      using vc [OF s(1)] ex [OF s(2)] b
        enterScope_shape [of "''block_'' @ random (draws st)" "st\<lparr>draws := draws st + 1\<rparr>"]
      by simp
  next
    case o
    with less.prems obtain s1 s2 where
      s: "before_children node st = Some s1" "visitChildren_sem random node s1 = Some s2"
         "check_main s2 = Some st' \<or> s2 = st'"
      by (auto simp: visitNode_sem_unfold [of random node st] split: option.splits if_splits)
    have "draws st' = draws s2"
      using s(3) same_shape_check_main [of s2 st'] by (auto simp: same_shape_def)
    then show ?thesis
      using vc [OF s(2)] same_shape_before_children [OF s(1)] o by (simp add: same_shape_def)
  qed
qed

subsection \<open>The walk depends on the draws it makes only\<close>



subsection \<open>Entries and exits of scopes balance\<close>

lemma scoped_same_shape: "same_shape st st' \<Longrightarrow> scoped random F st st'"
  by (simp add: scoped_def same_shape_def)

lemma block_names_mono:
  "k \<le> l \<Longrightarrow> l' \<le> k' \<Longrightarrow> block_names random l l' \<subseteq> block_names random k k'"
  by (auto simp: block_names_def)

lemma scoped_trans:
  assumes "scoped random F a b" and "scoped random F b c"
  shows "scoped random F a c"
proof -
  have d: "draws a \<le> draws b" "draws b \<le> draws c"
    using assms by (simp_all add: scoped_def)
  have "parent_of c n = parent_of a n"
    if "n \<notin> block_names random (draws a) (draws c) \<union> F" for n
  proof -
    have "n \<notin> block_names random (draws a) (draws b) \<union> F"
      "n \<notin> block_names random (draws b) (draws c) \<union> F"
      using that block_names_mono [of "draws a" "draws a" "draws b" "draws c" random]
        block_names_mono [of "draws a" "draws b" "draws c" "draws c" random] d
      by auto
    with assms show ?thesis
      by (simp add: scoped_def)
  qed
  with assms d show ?thesis
    by (simp add: scoped_def)
qed

lemma scoped_mono: "scoped random F a b \<Longrightarrow> F \<subseteq> F' \<Longrightarrow> scoped random F' a b"
  by (auto simp: scoped_def)

lemma function_scopes_node:
  "function_scopes node =
     (if node_type node = ''FunctionDeclaration'' then {''function_'' @ function_name node} else {})
     \<union> children_scopes node"
  by (cases node) (auto simp: function_scopes_def children_scopes_def split: option.splits)

lemma no_namesake_children:
  "no_namesake_inside node \<Longrightarrow> children node = Some cs \<Longrightarrow> c \<in> set cs \<Longrightarrow> no_namesake_inside c"
  by (cases node) (auto simp: list_all_iff)

lemma no_namesake_fresh:
  "no_namesake_inside node \<Longrightarrow> node_type node = ''FunctionDeclaration'' \<Longrightarrow>
   ''function_'' @ function_name node \<notin> children_scopes node"
  by (cases node) (auto simp: children_scopes_def function_scopes_def split: option.splits)

lemma block_not_function: "''block_'' @ x \<notin> function_scopes node"
  "''block_'' @ x \<notin> children_scopes node"
  "''function_'' @ y \<notin> block_names random k k'"
  by (auto simp: function_scopes_def children_scopes_def block_names_def split: option.splits)

lemma distinct_draws:
  "distinct (map random [0..<N]) \<Longrightarrow> i < N \<Longrightarrow> j < N \<Longrightarrow> random i = random j \<Longrightarrow> i = j"
  by (auto simp: distinct_map inj_on_def)

lemma visitChildren_sem_draws:
  assumes "visitChildren_sem random node s = Some s'"
  shows "draws s \<le> draws s' \<and>
         draws s' + (if node_type node = ''Block'' then 1 else 0) \<le> draws s + block_count node"
proof (cases "children node")
  case None
  with assms show ?thesis by (cases node) (simp add: visitChildren_sem_def)
next
  case (Some cs)
  with assms have "for_each (visitNode_sem random) cs s = Some s'"
    by (simp add: visitChildren_sem_def)
  then have "draws s \<le> draws s' \<and> draws s' \<le> draws s + sum_list (map block_count cs)"
    by (rule for_each_draws) (rule visitNode_sem_draws)
  then show ?thesis
    using block_count_children [OF Some] by simp
qed

lemma for_each_scoped:
  assumes "for_each (visitNode_sem random) cs st = Some st'"
    and "\<And>x s s'. x \<in> set cs \<Longrightarrow> visitNode_sem random x s = Some s' \<Longrightarrow> current s \<noteq> [] \<Longrightarrow>
           draws s + block_count x \<le> N \<Longrightarrow> scoped random F s s'"
    and "current st \<noteq> []"
    and "draws st + sum_list (map block_count cs) \<le> N"
  shows "scoped random F st st'"
  using assms
proof (induction cs arbitrary: st)
  case Nil
  then show ?case by (simp add: scoped_def)
next
  case (Cons x xs)
  from Cons.prems(1) obtain s1 where
    s1: "visitNode_sem random x st = Some s1" "for_each (visitNode_sem random) xs s1 = Some st'"
    by (auto split: option.splits)
  have a: "scoped random F st s1"
    using Cons.prems(3,4) by (intro Cons.prems(2) [OF _ s1(1)]) simp_all
  have d: "draws s1 \<le> draws st + block_count x"
    using visitNode_sem_draws [OF s1(1)] by simp
  have "scoped random F s1 st'"
  proof (rule Cons.IH [OF s1(2)])
    fix y and s s' :: sem_state
    assume "y \<in> set xs" "visitNode_sem random y s = Some s'" "current s \<noteq> []"
      "draws s + block_count y \<le> N"
    then show "scoped random F s s'"
      by (intro Cons.prems(2) [of y s s']) simp_all
  next
    show "current s1 \<noteq> []"
      using a Cons.prems(3) by (simp add: scoped_def)
  next
    show "draws s1 + sum_list (map block_count xs) \<le> N"
      using d Cons.prems(4) by simp
  qed
  with a show ?case
    by (rule scoped_trans)
qed

lemma scoped_bracket:
  assumes e: "current s1 = n0" "draws st \<le> draws s1"
      "parent_of s1 = (parent_of st)(n0 \<mapsto> Some (current st))"
    and i: "scoped random F s1 s2"
    and fresh: "n0 \<notin> block_names random (draws s1) (draws s2) \<union> F"
    and x: "exitScope s2 = Some st'"
    and c: "current st \<noteq> []"
  shows "current st' = current st \<and> draws st \<le> draws st' \<and> draws st' = draws s2 \<and>
         (\<forall>n. n \<noteq> n0 \<and> n \<notin> block_names random (draws s1) (draws s2) \<union> F \<longrightarrow>
              parent_of st' n = parent_of st n)"
proof -
  have 1: "current s2 = n0"
    using i e(1) by (simp add: scoped_def)
  have 2: "parent_of s2 n0 = Some (Some (current st))"
    using i fresh e(3) by (simp add: scoped_def)
  have 3: "current st' = or_else (Some (current st)) ''global'' \<and> draws st' = draws s2 \<and>
      parent_of st' = parent_of s2"
    using exitScope_shape [OF x, of "Some (current st)"] 1 2 by simp
  have 4: "parent_of s2 n = parent_of st n"
    if "n \<noteq> n0" "n \<notin> block_names random (draws s1) (draws s2) \<union> F" for n
    using i that e(3) by (simp add: scoped_def)
  have "draws s1 \<le> draws s2"
    using i by (simp add: scoped_def)
  with 3 4 c e(2) show ?thesis
    by (simp add: or_else_def)
qed

lemma draws_update_shape:
  "parent_of (st\<lparr>draws := d\<rparr>) = parent_of st" "current (st\<lparr>draws := d\<rparr>) = current st"
  by (simp_all add: parent_of_def lookup_scope_def current_def fun_eq_iff)

lemma visitChildren_sem_scoped:
  assumes "visitChildren_sem random node st = Some st'"
    and "\<And>x s s'. size x < size node \<Longrightarrow> visitNode_sem random x s = Some s' \<Longrightarrow>
           current s \<noteq> [] \<Longrightarrow> draws s + block_count x \<le> N \<Longrightarrow> no_namesake_inside x \<Longrightarrow>
           scoped random (function_scopes x) s s'"
    and "current st \<noteq> []"
    and "draws st + block_count node \<le> N + (if node_type node = ''Block'' then 1 else 0)"
    and "no_namesake_inside node"
  shows "scoped random (children_scopes node) st st'"
proof (cases "children node")
  case None
  with assms(1) show ?thesis
    by (simp add: visitChildren_sem_def scoped_def)
next
  case (Some cs)
  with assms(1) have "for_each (visitNode_sem random) cs st = Some st'"
    by (simp add: visitChildren_sem_def)
  then show ?thesis
  proof (rule for_each_scoped)
    fix x and s s' :: sem_state
    assume x: "x \<in> set cs" "visitNode_sem random x s = Some s'" "current s \<noteq> []"
      "draws s + block_count x \<le> N"
    have "scoped random (function_scopes x) s s'"
      using x size_children [OF Some x(1)] no_namesake_children [OF assms(5) Some x(1)]
      by (intro assms(2)) simp_all
    moreover have "function_scopes x \<subseteq> children_scopes node"
      using Some x(1) by (auto simp: children_scopes_def)
    ultimately show "scoped random (children_scopes node) s s'"
      by (rule scoped_mono)
  next
    show "current st \<noteq> []" by fact
  next
    show "draws st + sum_list (map block_count cs) \<le> N"
      using assms(4) block_count_children [OF Some] by (simp split: if_splits)
  qed
qed

lemma visitNode_sem_scoped:
  assumes "visitNode_sem random node st = Some st'"
    and "current st \<noteq> []"
    and "distinct (map random [0..<N])"
    and "draws st + block_count node \<le> N"
    and "no_namesake_inside node"
  shows "scoped random (function_scopes node) st st'"
  using assms(1,2,4,5)
proof (induction node arbitrary: st st' rule: measure_induct_rule [where f = size])
  case (less node)
  note IH = less.IH
  consider (f) "node_type node = ''FunctionDeclaration''"
    | (v) "node_type node = ''VariableDeclaration''"
    | (b) "node_type node = ''Block''"
    | (o) "node_type node \<noteq> ''FunctionDeclaration''" "node_type node \<noteq> ''VariableDeclaration''"
          "node_type node \<noteq> ''Block''"
    by blast
  then show ?case
  proof cases
    case f
    let ?n0 = "''function_'' @ function_name node"
    from f less.prems(1) obtain s1 s2 where
      s: "enter_function node st = Some s1" "exitScope s2 = Some st'"
      and body: "s2 = s1 \<or> (\<exists>body. child node 3 = Some body \<and>
                   visitNode_sem random body s1 = Some s2)"
      by (auto simp: visitNode_sem_unfold [of random node st] split: option.splits if_splits)
    note e = enter_function_shape [OF s(1)]
    have inner: "scoped random (children_scopes node) s1 s2"
    proof (cases "s2 = s1")
      case True
      then show ?thesis by (simp add: scoped_def)
    next
      case False
      with body obtain body' where
        b: "child node 3 = Some body'" "visitNode_sem random body' s1 = Some s2"
        by blast
      from b(1) obtain cs where cs: "children node = Some cs" "body' \<in> set cs"
        by (auto simp: child_def split: option.splits if_splits)
      have "scoped random (function_scopes body') s1 s2"
        using b e less.prems(2,3) block_count_child [OF b(1)]
          no_namesake_children [OF less.prems(4) cs]
        by (intro IH [OF size_child [OF b(1)] b(2)]) simp_all
      moreover have "function_scopes body' \<subseteq> children_scopes node"
        using cs by (auto simp: children_scopes_def)
      ultimately show ?thesis
        by (rule scoped_mono)
    qed
    have fresh: "?n0 \<notin> block_names random (draws s1) (draws s2) \<union> children_scopes node"
      using no_namesake_fresh [OF less.prems(4) f] block_not_function(3) by simp
    have "current st' = current st \<and> draws st \<le> draws st' \<and> draws st' = draws s2 \<and>
         (\<forall>n. n \<noteq> ?n0 \<and> n \<notin> block_names random (draws s1) (draws s2) \<union> children_scopes node \<longrightarrow>
              parent_of st' n = parent_of st n)"
      using e inner fresh s(2) less.prems(2)
      by (intro scoped_bracket [where ?s1.0 = s1]) simp_all
    then show ?thesis
      using e f by (simp add: scoped_def function_scopes_node)
  next
    case v
    with less.prems(1) have "same_shape st st'"
      by (auto simp: visitNode_sem_unfold [of random node st]
          dest: same_shape_visit_VariableDeclaration)
    then show ?thesis by (rule scoped_same_shape)
  next
    case b
    let ?k = "draws st"
    let ?n0 = "''block_'' @ random ?k"
    let ?s1 = "enterScope ?n0 (st\<lparr>draws := ?k + 1\<rparr>)"
    from b less.prems(1) obtain s2 where
      s: "visitChildren_sem random node ?s1 = Some s2" "exitScope s2 = Some st'"
      by (auto simp: visitNode_sem_unfold [of random node st] split: option.splits)
    have e: "current ?s1 = ?n0" "draws ?s1 = ?k + 1"
      "parent_of ?s1 = (parent_of st)(?n0 \<mapsto> Some (current st))"
      using enterScope_shape [of ?n0 "st\<lparr>draws := ?k + 1\<rparr>"]
      by (simp_all add: draws_update_shape)
    have inner: "scoped random (children_scopes node) ?s1 s2"
      using s(1)
    proof (rule visitChildren_sem_scoped)
      fix x and s s' :: sem_state
      assume "size x < size node" "visitNode_sem random x s = Some s'" "current s \<noteq> []"
        "draws s + block_count x \<le> N" "no_namesake_inside x"
      then show "scoped random (function_scopes x) s s'"
        by (rule IH)
    next
      show "current ?s1 \<noteq> []" using e(1) by simp
    next
      show "draws ?s1 + block_count node \<le> N + (if node_type node = ''Block'' then 1 else 0)"
        using e(2) b less.prems(3) by simp
    next
      show "no_namesake_inside node" by fact
    qed
    have d2: "draws s2 \<le> N"
      using visitChildren_sem_draws [OF s(1)] e(2) b less.prems(3) by simp
    have "?n0 \<notin> block_names random (draws ?s1) (draws s2)"
    proof
      assume "?n0 \<in> block_names random (draws ?s1) (draws s2)"
      then obtain j where j: "?k + 1 \<le> j" "j < draws s2" "random j = random ?k"
        using e(2) by (auto simp: block_names_def)
      with d2 distinct_draws [OF assms(3), of j ?k] show False
        by simp
    qed
    then have fresh: "?n0 \<notin> block_names random (draws ?s1) (draws s2) \<union> children_scopes node"
      using block_not_function(2) by simp
    have r: "current st' = current st \<and> draws st \<le> draws st' \<and> draws st' = draws s2 \<and>
         (\<forall>n. n \<noteq> ?n0 \<and> n \<notin> block_names random (draws ?s1) (draws s2) \<union> children_scopes node \<longrightarrow>
              parent_of st' n = parent_of st n)"
      using e inner fresh s(2) less.prems(2)
      by (intro scoped_bracket [where ?s1.0 = ?s1]) simp_all
    have "draws ?s1 \<le> draws s2"
      using inner by (simp add: scoped_def)
    then have in0: "?n0 \<in> block_names random ?k (draws s2)"
      using e(2) by (auto simp: block_names_def)
    have sub: "block_names random (draws ?s1) (draws s2) \<subseteq> block_names random ?k (draws s2)"
      using e(2) by (intro block_names_mono) simp_all
    have "parent_of st' n = parent_of st n"
      if "n \<notin> block_names random ?k (draws st') \<union> function_scopes node" for n
    proof -
      have "n \<noteq> ?n0 \<and> n \<notin> block_names random (draws ?s1) (draws s2) \<union> children_scopes node"
        using that r in0 sub by (auto simp: function_scopes_node)
      with r show ?thesis by blast
    qed
    with r show ?thesis
      by (simp add: scoped_def)
  next
    case o
    from o less.prems(1) obtain s1 s2 where
      s: "before_children node st = Some s1" "visitChildren_sem random node s1 = Some s2"
         "check_main s2 = Some st' \<or> s2 = st'"
      by (auto simp: visitNode_sem_unfold [of random node st] split: option.splits if_splits)
    have 1: "same_shape st s1"
      using s(1) by (rule same_shape_before_children)
    have 2: "scoped random (children_scopes node) s1 s2"
      using s(2)
    proof (rule visitChildren_sem_scoped)
      fix x and s s' :: sem_state
      assume "size x < size node" "visitNode_sem random x s = Some s'" "current s \<noteq> []"
        "draws s + block_count x \<le> N" "no_namesake_inside x"
      then show "scoped random (function_scopes x) s s'"
        by (rule IH)
    next
      show "current s1 \<noteq> []" using 1 less.prems(2) by (simp add: same_shape_def)
    next
      show "draws s1 + block_count node \<le> N + (if node_type node = ''Block'' then 1 else 0)"
        using 1 less.prems(3) by (simp add: same_shape_def)
    next
      show "no_namesake_inside node" by fact
    qed
    have 3: "same_shape s2 st'"
      using s(3) same_shape_check_main [of s2 st'] by (auto simp: same_shape_refl)
    have "scoped random (children_scopes node) st st'"
      using scoped_trans [OF scoped_same_shape [OF 1] scoped_trans [OF 2 scoped_same_shape [OF 3]]] .
    then show ?thesis
      using o by (simp add: function_scopes_node)
  qed
qed

text \<open>
  Claim C9, as amended: when \<open>analyze\<close> returns, \<open>symbolTable.currentScope\<close>
  equals \<open>global\<close>, provided that the block identifiers drawn during the walk are
  pairwise distinct and that no function declaration lies inside the declaration
  of a function of the same name.
\<close>

theorem analyze_ends_in_global_scope:
  assumes "analyze random ast = Some (tab, errs)"
    and "distinct (map random [0..<block_count ast])"
    and "no_namesake_inside ast"
  shows "currentScope tab = ''global''"
proof -
  from assms(1) obtain st' where
    st': "visitNode_sem random ast initial_sem_state = Some st'" "tab = symbolTable st'"
    by (auto simp: analyze_def)
  have "current initial_sem_state \<noteq> []"
    "draws initial_sem_state + block_count ast \<le> block_count ast"
    by (simp_all add: initial_sem_state_def current_def)
  with st'(1) have "scoped random (function_scopes ast) initial_sem_state st'"
    using assms(2,3) by (intro visitNode_sem_scoped [where N = "block_count ast"])
  then show ?thesis
    using st'(2) by (simp add: scoped_def current_def initial_sem_state_def)
qed

text \<open>
  An instance: the walk of \<open>int main() { int i = 0; while (i < 3) { i = i + 1; } return i; }\<close>
  with two distinct draws.
\<close>

theorem analyze_ends_in_global_scope_witness:
  "analyze example_draws while_program \<noteq> None \<and>
   distinct (map example_draws [0..<block_count while_program]) \<and>
   no_namesake_inside while_program \<and>
   currentScope (fst (the (analyze example_draws while_program))) = ''global''"
proof -
  have 1: "analyze example_draws while_program =
      Some (fst (the (analyze example_draws while_program)),
            snd (the (analyze example_draws while_program)))"
    by code_simp
  have 2: "distinct (map example_draws [0..<block_count while_program])"
    by code_simp
  have 3: "no_namesake_inside while_program"
    by code_simp
  have 4: "analyze example_draws while_program \<noteq> None"
    by (subst 1) simp
  from analyze_ends_in_global_scope [OF 1 2 3] 2 3 4 show ?thesis
    by blast
qed

text \<open>
  Claim C9 as stated fails: the walk ends in a block scope where a function
  declaration lies in the body of a function of the same name, and where two nested
  blocks draw the same identifier.
\<close>

theorem analyze_ends_outside_global_scope:
  "map_option (\<lambda>(tab, errs). currentScope tab) (analyze example_draws nested_namesake_program) =
     Some ''block_k3j9x2m1q'' \<and>
   map_option (\<lambda>(tab, errs). currentScope tab) (analyze repeated_draws nested_blocks_program) =
     Some ''block_k3j9x2m1q''"
  by code_simp




section \<open>Properties of the IR generator\<close>

text \<open>
  Claim C8 at the program \<open>int L0() { if (true) { } return 0; }\<close>: the label
  of the function and the first generated label are both \<open>L0\<close>, so the target of
  \<open>JUMPFALSE\<close> is the result of two \<open>LABEL\<close> instructions.
\<close>

theorem generateIR_duplicate_label:
  "generateIR label_named_function_program =
     Some [instr ''LABEL'' (Some ''L0'') None None,
           instr ''ENTER'' None None None,
           instr ''JUMPFALSE'' (Some ''L0'') (Some ''true'') None,
           instr ''JUMP'' (Some ''L1'') None None,
           instr ''LABEL'' (Some ''L0'') None None,
           instr ''LABEL'' (Some ''L1'') None None,
           instr ''RET'' None (Some ''0'') None,
           instr ''LEAVE'' None None None,
           instr ''RET'' None None None] \<and>
   length (filter (\<lambda>i. op i = ''LABEL'' \<and> result i = Some ''L0'')
             (the (generateIR label_named_function_program))) = 2"
  by code_simp

section \<open>Properties of the optimizer\<close>

lemma track_other: "x \<notin> set (writes i) \<Longrightarrow> track J m i x = m x"
  by (auto simp: track_def writes_def split: option.splits)

lemma foldl_track_other:
  "x \<notin> set (concat (map writes ir)) \<Longrightarrow> foldl (track J) m ir x = m x"
  by (induction ir arbitrary: m) (simp_all add: track_other)

lemma substitute_cong: "(\<And>x. a = Some x \<Longrightarrow> m x = m' x) \<Longrightarrow> substitute m a = substitute m' a"
  by (auto simp: substitute_def split: option.splits)

lemma substitute_args_cong:
  "(\<And>x. x \<in> set (reads i) \<Longrightarrow> m x = m' x) \<Longrightarrow> substitute_args m i = substitute_args m' i"
  unfolding substitute_args_def
  using substitute_cong [of "arg1 i" m m'] substitute_cong [of "arg2 i" m m']
  by (simp add: reads_def)

text \<open>
  The two loops of \<open>constantPropagation\<close> and the single scan yield the same
  list where no instruction writes a name that it or an earlier instruction reads.
\<close>

lemma two_scans_agree:
  "no_write_after_read ir \<Longrightarrow>
   map (substitute_args (foldl (track J) m ir)) ir = single_scan_propagation J m ir"
proof (induction ir arbitrary: m)
  case Nil
  show ?case by simp
next
  case (Cons i ir)
  have later: "x \<notin> set (concat (map writes (i # ir)))" if "x \<in> set (reads i)" for x
    using Cons.prems that by (simp add: list_all_iff)
  have "foldl (track J) m (i # ir) x = m x" if "x \<in> set (reads i)" for x
    using foldl_track_other [OF later [OF that], of J m] .
  then have "substitute_args (foldl (track J) m (i # ir)) i = substitute_args m i"
    by (rule substitute_args_cong)
  moreover have "map (substitute_args (foldl (track J) (track J m i) ir)) ir =
      single_scan_propagation J (track J m i) ir"
    using Cons.prems by (intro Cons.IH) simp
  ultimately show ?case by simp
qed








text \<open>
  Claim C4, as amended: for \<open>int main() { int a = 2 + 3 * 4; return a; }\<close>,
  \<open>generateIR\<close> produces \<open>LABEL main\<close>, \<open>ENTER\<close>, \<open>MUL t0,3,4\<close>,
  \<open>ADD t1,2,t0\<close>, \<open>ASSIGN a,t1\<close>, \<open>RET a\<close>, \<open>LEAVE\<close>, \<open>RET\<close>, and
  \<open>optimizeIR\<close> of that list yields \<open>LABEL main\<close>, \<open>ENTER\<close>,
  \<open>ADD t1,2,12\<close>, \<open>ASSIGN a,t1\<close>, \<open>RET a\<close>, \<open>LEAVE\<close>, \<open>RET\<close>: the
  multiplication is folded and its constant propagated into the addition, which is
  not folded again because folding runs once, before propagation.
\<close>

theorem constant_folding_scenario:
  "generateIR constant_folding_program = Some constant_folding_ir \<and>
   optimizeIR js_integers constant_folding_ir =
     [instr ''LABEL'' (Some ''main'') None None,
      instr ''ENTER'' None None None,
      instr ''ADD'' (Some ''t1'') (Some ''2'') (Some ''12''),
      instr ''ASSIGN'' (Some ''a'') (Some ''t1'') None,
      instr ''RET'' None (Some ''a'') None,
      instr ''LEAVE'' None None None,
      instr ''RET'' None None None]"
  by code_simp

text \<open>
  Claim C4 as stated fails: the optimized IR of the program is not the function
  frame with \<open>ASSIGN a,14\<close> and \<open>RET a\<close>.
\<close>

theorem constant_folding_scenario_not_collapsed:
  "optimizeIR js_integers constant_folding_ir \<noteq>
     [instr ''LABEL'' (Some ''main'') None None,
      instr ''ENTER'' None None None,
      instr ''ASSIGN'' (Some ''a'') (Some ''14'') None,
      instr ''RET'' None (Some ''a'') None,
      instr ''LEAVE'' None None None,
      instr ''RET'' None None None]"
  by code_simp

text \<open>
  Claim C5 at the IR of \<open>int main() { int x = 1; print(x); x = 2; return x; }\<close>:
  the second loop of \<open>constantPropagation\<close> substitutes with the map as the
  first loop left it at the end of the list, where \<open>x\<close> stands for \<open>2\<close>, so
  \<open>PRINT x\<close> becomes \<open>PRINT 2\<close> though \<open>x\<close> is \<open>1\<close> at that
  instruction. The single scan of the specification substitutes \<open>1\<close> there.
\<close>

theorem constantPropagation_not_single_scan:
  "generateIR reassigned_program = Some reassigned_ir \<and>
   constantPropagation js_integers reassigned_ir =
     [instr ''LABEL'' (Some ''main'') None None,
      instr ''ENTER'' None None None,
      instr ''ASSIGN'' (Some ''x'') (Some ''1'') None,
      instr ''PRINT'' None (Some ''2'') None,
      instr ''ASSIGN'' (Some ''x'') (Some ''2'') None,
      instr ''RET'' None (Some ''2'') None,
      instr ''LEAVE'' None None None,
      instr ''RET'' None None None] \<and>
   single_scan_propagation js_integers Map.empty reassigned_ir =
     [instr ''LABEL'' (Some ''main'') None None,
      instr ''ENTER'' None None None,
      instr ''ASSIGN'' (Some ''x'') (Some ''1'') None,
      instr ''PRINT'' None (Some ''1'') None,
      instr ''ASSIGN'' (Some ''x'') (Some ''2'') None,
      instr ''RET'' None (Some ''2'') None,
      instr ''LEAVE'' None None None,
      instr ''RET'' None None None] \<and>
   optimizeIR js_integers reassigned_ir =
     [instr ''LABEL'' (Some ''main'') None None,
      instr ''ENTER'' None None None,
      instr ''PRINT'' None (Some ''2'') None,
      instr ''RET'' None (Some ''2'') None,
      instr ''LEAVE'' None None None,
      instr ''RET'' None None None]"
  by code_simp




end
